theory Spec2Isabelle
  imports Main
begin

section \<open>JSON values, requests and responses\<close>

text \<open>
  The handlers of \<^verbatim>\<open>product/views.py\<close> and \<^verbatim>\<open>product/api_views.py\<close> read
  \<^verbatim>\<open>request.data\<close> (the parsed JSON object of the body, a dictionary from field names to
  values) and answer with \<^verbatim>\<open>Response(data, status=...)\<close>. A JSON number without
  fraction and exponent arrives as an integer (\<open>JInt\<close>); any other number arrives as a
  float, which is held here as the text Python's \<^verbatim>\<open>str()\<close> gives for it
  (\<open>JFloat ''9.99''\<close>). A string is a list of characters with code points below 256.
  An object that is produced (a response body) keeps the order of its keys.
\<close>

datatype json =
    JNull
  | JBool bool
  | JInt int
  | JFloat string
  | JStr string
  | JList "json list"
  | JObj "(string \<times> json) list"

record request =
  data :: "string \<rightharpoonup> json"

record response =
  status :: nat
  body :: "json option"

definition HTTP_200_OK :: nat where "HTTP_200_OK = 200"
definition HTTP_201_CREATED :: nat where "HTTP_201_CREATED = 201"
definition HTTP_204_NO_CONTENT :: nat where "HTTP_204_NO_CONTENT = 204"
definition HTTP_400_BAD_REQUEST :: nat where "HTTP_400_BAD_REQUEST = 400"
definition HTTP_404_NOT_FOUND :: nat where "HTTP_404_NOT_FOUND = 404"
definition HTTP_500_INTERNAL_SERVER_ERROR :: nat where "HTTP_500_INTERNAL_SERVER_ERROR = 500"

text \<open>
  \<^verbatim>\<open>Response(data=None, status=None)\<close>: a response built without a status is sent
  with 200; one built without data has an empty body.
\<close>

definition Response :: "json option \<Rightarrow> nat option \<Rightarrow> response" where
  "Response d st = \<lparr>status = (case st of None \<Rightarrow> HTTP_200_OK | Some c \<Rightarrow> c), body = d\<rparr>"

text \<open>
  The exceptions a handler can leave through: \<^verbatim>\<open>Http404\<close> from
  \<^verbatim>\<open>get_object_or_404\<close>, and the storage layer's \<^verbatim>\<open>IntegrityError\<close> for a row
  that breaks a column constraint. The view layer turns the first into a 404 response and
  lets the second end the request as a server error.
\<close>

datatype exn = Http404 | IntegrityError

fun status_code :: "exn + response \<Rightarrow> nat" where
  "status_code (Inl Http404) = HTTP_404_NOT_FOUND"
| "status_code (Inl IntegrityError) = HTTP_500_INTERNAL_SERVER_ERROR"
| "status_code (Inr r) = status r"

section \<open>Text as Python converts it\<close>

text \<open>
  \<^verbatim>\<open>str.strip()\<close> removes leading and trailing whitespace; among the code points below
  256 the whitespace characters are 9 to 13, 28 to 32, 133 and 160. \<^verbatim>\<open>str(n)\<close> of an
  integer is its decimal numeral.
\<close>

definition is_space :: "char \<Rightarrow> bool" where
  "is_space c = ((of_char c :: nat) \<in> {9, 10, 11, 12, 13, 28, 29, 30, 31, 32, 133, 160})"

definition strip :: "string \<Rightarrow> string" where
  "strip s = rev (dropWhile is_space (rev (dropWhile is_space s)))"

fun nat_str :: "nat \<Rightarrow> string" where
  "nat_str n =
     (if n < 10 then [''0123456789'' ! n]
      else nat_str (n div 10) @ [''0123456789'' ! (n mod 10)])"

declare nat_str.simps [simp del]

definition is_digit :: "char \<Rightarrow> bool" where
  "is_digit c = (48 \<le> (of_char c :: nat) \<and> (of_char c :: nat) \<le> 57)"

definition digits_value :: "string \<Rightarrow> int" where
  "digits_value ds = foldl (\<lambda>n c. 10 * n + (int (of_char c) - 48)) 0 ds"

definition int_str :: "int \<Rightarrow> string" where
  "int_str i = (if i < 0 then CHR ''-'' # nat_str (nat (- i)) else nat_str (nat i))"

text \<open>
  The text of a request value that a character field can take: a string as it is, a
  number as \<^verbatim>\<open>str()\<close> writes it. Booleans, null, lists and objects have none.
\<close>

fun text_of :: "json \<Rightarrow> string option" where
  "text_of (JStr s) = Some s"
| "text_of (JInt n) = Some (int_str n)"
| "text_of (JFloat r) = Some r"
| "text_of _ = None"

section \<open>The stored tables\<close>

text \<open>
  Modelled from the spec: \<^verbatim>\<open>product/models.py\<close> (the declarations of
  \<^verbatim>\<open>Product\<close> and \<^verbatim>\<open>Category\<close>) is not among the sources. The spec gives
  Product the columns id (unique, generated), slug (unique string), title (string),
  description (string), price (numeric) and a many-to-many relation to Category; Category
  has an identity and otherwise opaque columns. A stored price is held as an integer; how
  a request value becomes one and how it is written in a response belong to the
  declaration of the column, which is a parameter below. An instance that has not been
  given a price has none.
\<close>

record product =
  product_id :: int
  slug :: string
  title :: string
  description :: string
  price :: "int option"

record category =
  category_id :: int
  category_columns :: "(string \<times> json) list"

text \<open>
  The database: the product rows in storage order, the last id the id sequence handed out,
  the category rows, and the rows (product id, category id) of the relation's join table.
\<close>

record db =
  product_table :: "product list"
  product_seq :: int
  category_table :: "category list"
  product_categories :: "(int \<times> int) list"

definition Product_objects_all :: "db \<Rightarrow> product list" where
  "Product_objects_all d = product_table d"

definition get_object_or_404 :: "db \<Rightarrow> int \<Rightarrow> exn + product" where
  "get_object_or_404 d k =
     (case find (\<lambda>r. product_id r = k) (product_table d) of
        None \<Rightarrow> Inl Http404
      | Some r \<Rightarrow> Inr r)"

text \<open>
  Modelled from the spec: slug is unique and price is a non-null numeric column (both
  declared in the absent \<^verbatim>\<open>product/models.py\<close>). A row is refused by the storage
  layer when its price is missing or its slug is held by a row with another id.
\<close>

definition slug_taken :: "db \<Rightarrow> string \<Rightarrow> int option \<Rightarrow> bool" where
  "slug_taken d s excl =
     (\<exists>r \<in> set (product_table d). slug r = s \<and> Some (product_id r) \<noteq> excl)"

definition row_ok :: "db \<Rightarrow> product \<Rightarrow> int option \<Rightarrow> bool" where
  "row_ok d r excl = (price r \<noteq> None \<and> \<not> slug_taken d (slug r) excl)"

text \<open>INSERT: the row gets the next id of the sequence and is stored last.\<close>

definition insert_product :: "product \<Rightarrow> db \<Rightarrow> exn + (product \<times> db)" where
  "insert_product r d =
     (if row_ok d r None then
        (let k = product_seq d + 1; r' = r\<lparr>product_id := k\<rparr>
         in Inr (r', d\<lparr>product_table := product_table d @ [r'], product_seq := k\<rparr>))
      else Inl IntegrityError)"

text \<open>UPDATE ... WHERE id = pk: the row with the instance's id takes the instance's columns.\<close>

definition update_product :: "product \<Rightarrow> db \<Rightarrow> exn + db" where
  "update_product r d =
     (if row_ok d r (Some (product_id r)) then
        Inr (d\<lparr>product_table :=
               map (\<lambda>x. if product_id x = product_id r then r else x) (product_table d)\<rparr>)
      else Inl IntegrityError)"

text \<open>\<^verbatim>\<open>categories.set(ks)\<close>: the join rows of the product are replaced.\<close>

definition set_categories :: "int \<Rightarrow> int list \<Rightarrow> db \<Rightarrow> db" where
  "set_categories k ks d =
     d\<lparr>product_categories :=
         filter (\<lambda>(p, c). p \<noteq> k) (product_categories d) @ map (\<lambda>c. (k, c)) ks\<rparr>"

text \<open>\<^verbatim>\<open>obj.delete()\<close>: the row goes, and with it its rows of the join table.\<close>

definition delete_product :: "product \<Rightarrow> db \<Rightarrow> db" where
  "delete_product r d =
     d\<lparr>product_table := filter (\<lambda>x. product_id x \<noteq> product_id r) (product_table d),
       product_categories := filter (\<lambda>(p, c). p \<noteq> product_id r) (product_categories d)\<rparr>"

definition categories_of :: "db \<Rightarrow> int \<Rightarrow> category list" where
  "categories_of d k =
     filter (\<lambda>c. (k, category_id c) \<in> set (product_categories d)) (category_table d)"

section \<open>Serializer fields\<close>

text \<open>
  The framework's character field, run on a value that is present. In this order: text
  that is empty once trimmed is returned as the empty string where blank is allowed (no
  validator runs) and refused otherwise; null is refused; a boolean, list or object is not
  a valid string; any other value becomes its text, trimmed, and is given to every
  validator of the field, whose messages are collected.
\<close>

definition run_validators :: "('a \<Rightarrow> string list) list \<Rightarrow> 'a \<Rightarrow> string list + 'a" where
  "run_validators vs x =
     (let ms = concat (map (\<lambda>v. v x) vs) in if ms = [] then Inr x else Inl ms)"

definition CharField :: "bool \<Rightarrow> (string \<Rightarrow> string list) list \<Rightarrow> json \<Rightarrow> string list + string" where
  "CharField blank_ok vs x =
     (case text_of x of
        Some s \<Rightarrow>
          if strip s = [] then
            (if blank_ok then Inr [] else Inl [''This field may not be blank.''])
          else run_validators vs (strip s)
      | None \<Rightarrow>
          if x = JNull then Inl [''This field may not be null.'']
          else Inl [''Not a valid string.''])"

text \<open>
  Modelled from the spec: what the absent \<^verbatim>\<open>product/models.py\<close> declares for a string
  column, as far as a model serializer reads it: whether a value is required, whether blank is
  allowed, the validators the model adds (run before the uniqueness check of a unique
  column), the validators the serializer field adds for the column (length limit, character
  checks; run after it), and the value a new instance has when none is given. The spec
  gives slug, title and description as strings and says no more, so every theorem below
  holds for every such declaration.
\<close>

record char_column =
  required :: bool
  allow_blank :: bool
  model_validators :: "(string \<Rightarrow> string list) list"
  field_validators :: "(string \<Rightarrow> string list) list"
  column_default :: string

definition char_column_field ::
  "char_column \<Rightarrow> (string \<Rightarrow> string list) list \<Rightarrow> json \<Rightarrow> string list + string" where
  "char_column_field c extra =
     CharField (allow_blank c) (model_validators c @ extra @ field_validators c)"

text \<open>
  Modelled from the spec: the declaration of \<^verbatim>\<open>Product\<close> in the absent
  \<^verbatim>\<open>product/models.py\<close>. The spec gives price as numeric only, so the serializer field of
  price is a parameter as a whole: whether a value is required, the value of a new instance,
  the validation of a value that is present (messages, or the integer that is stored) and
  the way a stored price is written in a response.
\<close>

record product_model =
  slug_column :: char_column
  title_column :: char_column
  description_column :: char_column
  price_required :: bool
  price_default :: "int option"
  price_field :: "json \<Rightarrow> string list + int"
  price_repr :: "int \<Rightarrow> json"

section \<open>Serializers\<close>

text \<open>
  \<^verbatim>\<open>product/serializers.py\<close>. A model serializer class is its model, its
  \<^verbatim>\<open>Meta.fields\<close> list and the fields it declares read-only. \<^verbatim>\<open>'__all__'\<close> is the
  id, then the fields the class declares itself, then the columns of the model in
  declaration order. \<^verbatim>\<open>ProductDetailSerializer\<close> declares
  \<^verbatim>\<open>categories = CategorySerializer(many=True, read_only=True)\<close>. The generated
  \<^verbatim>\<open>id\<close> is never writable.
\<close>

record serializer_class =
  meta_model :: product_model
  meta_fields :: "string list"
  read_only_fields :: "string list"

definition ProductListSerializer :: "product_model \<Rightarrow> serializer_class" where
  "ProductListSerializer Product =
     \<lparr>meta_model = Product,
      meta_fields = [''id'', ''slug'', ''title'', ''description'', ''price''],
      read_only_fields = []\<rparr>"

definition ProductDetailSerializer :: "product_model \<Rightarrow> serializer_class" where
  "ProductDetailSerializer Product =
     \<lparr>meta_model = Product,
      meta_fields = [''id'', ''categories'', ''slug'', ''title'', ''description'', ''price''],
      read_only_fields = [''categories'']\<rparr>"

definition ProductCreateSerializer :: "product_model \<Rightarrow> serializer_class" where
  "ProductCreateSerializer Product =
     \<lparr>meta_model = Product,
      meta_fields = [''id'', ''slug'', ''title'', ''price''],
      read_only_fields = []\<rparr>"

definition writable :: "serializer_class \<Rightarrow> string \<Rightarrow> bool" where
  "writable c f = (f \<in> set (meta_fields c) \<and> f \<notin> set (read_only_fields c) \<and> f \<noteq> ''id'')"

text \<open>
  What validation leaves in \<^verbatim>\<open>validated_data\<close>: a value for each writable field that
  the request gave, nothing for the others.
\<close>

record validated_data =
  vd_slug :: "string option"
  vd_title :: "string option"
  vd_description :: "string option"
  vd_price :: "int option"
  vd_categories :: "int list option"

text \<open>
  A serializer object: its class, the instance it was built on (none for a create), the
  request's data, the \<^verbatim>\<open>partial\<close> flag, and what \<^verbatim>\<open>is_valid()\<close> stores:
  the validated data and the mapping from field names to error messages.
\<close>

record serializer =
  cls :: serializer_class
  inst :: "product option"
  initial_data :: "string \<rightharpoonup> json"
  partial :: bool
  validated :: validated_data
  errors :: "(string \<times> string list) list"

definition new_serializer ::
  "serializer_class \<Rightarrow> product option \<Rightarrow> (string \<rightharpoonup> json) \<Rightarrow> bool \<Rightarrow> serializer" where
  "new_serializer c i d p =
     \<lparr>cls = c, inst = i, initial_data = d, partial = p,
      validated = \<lparr>vd_slug = None, vd_title = None, vd_description = None,
                   vd_price = None, vd_categories = None\<rparr>,
      errors = []\<rparr>"

text \<open>The outcome of one field: not read, refused with messages, or accepted.\<close>

datatype 'a outcome = Absent | Bad "string list" | Good 'a

text \<open>
  One field of the serializer's validation. A field that is not writable is skipped
  whatever the request holds. A writable field missing from the request is skipped under
  \<^verbatim>\<open>partial=True\<close>, is an error when it is required, and is skipped otherwise. A value
  that is present is run through the field.
\<close>

definition run_field ::
  "serializer \<Rightarrow> string \<Rightarrow> bool \<Rightarrow> (json \<Rightarrow> string list + 'a) \<Rightarrow> 'a outcome" where
  "run_field ser f req field =
     (if \<not> writable (cls ser) f then Absent
      else case initial_data ser f of
             None \<Rightarrow>
               if partial ser then Absent
               else if req then Bad [''This field is required.'']
               else Absent
           | Some v \<Rightarrow> (case field v of Inl ms \<Rightarrow> Bad ms | Inr x \<Rightarrow> Good x))"

text \<open>
  The uniqueness validator a model serializer adds for a unique column: another row (not
  the instance being updated) already holds the value.
\<close>

definition unique_validator :: "db \<Rightarrow> product option \<Rightarrow> string \<Rightarrow> string list" where
  "unique_validator d i s =
     (if slug_taken d s (map_option product_id i)
      then [''product with this slug already exists.'']
      else [])"

text \<open>
  The primary keys of a writable many-to-many relation (no serializer of
  \<^verbatim>\<open>product/serializers.py\<close> has one): a list of ids of stored categories.
\<close>

fun to_pk :: "db \<Rightarrow> json \<Rightarrow> int option" where
  "to_pk d (JInt k) = (if k \<in> category_id ` set (category_table d) then Some k else None)"
| "to_pk d _ = None"

fun to_pks :: "db \<Rightarrow> json \<Rightarrow> string list + int list" where
  "to_pks d (JList vs) =
     (if None \<in> set (map (to_pk d) vs) then Inl [''Invalid pk - object does not exist.'']
      else Inr (map (\<lambda>v. the (to_pk d v)) vs))"
| "to_pks d JNull = Inl [''This field may not be null.'']"
| "to_pks d _ = Inl [''Expected a list of items.'']"

text \<open>
  The serializer fields of the three string columns. Only slug is unique, so only its
  field has the uniqueness validator, built on the database and on the serializer's
  instance.
\<close>

definition slug_field :: "product_model \<Rightarrow> db \<Rightarrow> product option \<Rightarrow> json \<Rightarrow> string list + string" where
  "slug_field Product d i = char_column_field (slug_column Product) [unique_validator d i]"

definition title_field :: "product_model \<Rightarrow> json \<Rightarrow> string list + string" where
  "title_field Product = char_column_field (title_column Product) []"

definition description_field :: "product_model \<Rightarrow> json \<Rightarrow> string list + string" where
  "description_field Product = char_column_field (description_column Product) []"

text \<open>The outcome of each field of a product serializer.\<close>

definition slug_outcome :: "serializer \<Rightarrow> db \<Rightarrow> string outcome" where
  "slug_outcome ser d =
     run_field ser ''slug'' (required (slug_column (meta_model (cls ser))))
       (slug_field (meta_model (cls ser)) d (inst ser))"

definition title_outcome :: "serializer \<Rightarrow> string outcome" where
  "title_outcome ser =
     run_field ser ''title'' (required (title_column (meta_model (cls ser))))
       (title_field (meta_model (cls ser)))"

definition description_outcome :: "serializer \<Rightarrow> string outcome" where
  "description_outcome ser =
     run_field ser ''description'' (required (description_column (meta_model (cls ser))))
       (description_field (meta_model (cls ser)))"

definition price_outcome :: "serializer \<Rightarrow> int outcome" where
  "price_outcome ser =
     run_field ser ''price'' (price_required (meta_model (cls ser)))
       (price_field (meta_model (cls ser)))"

definition categories_outcome :: "serializer \<Rightarrow> db \<Rightarrow> int list outcome" where
  "categories_outcome ser d = run_field ser ''categories'' True (to_pks d)"

fun value_of :: "'a outcome \<Rightarrow> 'a option" where
  "value_of (Good x) = Some x"
| "value_of _ = None"

fun error_of :: "string \<Rightarrow> 'a outcome \<Rightarrow> (string \<times> string list) list" where
  "error_of f (Bad ms) = [(f, ms)]"
| "error_of f _ = []"

definition field_errors :: "serializer \<Rightarrow> db \<Rightarrow> string \<Rightarrow> (string \<times> string list) list" where
  "field_errors ser d f =
     (if f = ''slug'' then error_of f (slug_outcome ser d)
      else if f = ''title'' then error_of f (title_outcome ser)
      else if f = ''description'' then error_of f (description_outcome ser)
      else if f = ''price'' then error_of f (price_outcome ser)
      else if f = ''categories'' then error_of f (categories_outcome ser d)
      else [])"

text \<open>
  \<^verbatim>\<open>run_validation\<close>: every field is run; the result is the accepted values and the
  mapping from field names to error messages, in the order of \<^verbatim>\<open>Meta.fields\<close>.
\<close>

definition run_validation :: "serializer \<Rightarrow> db \<Rightarrow> validated_data \<times> (string \<times> string list) list" where
  "run_validation ser d =
     (\<lparr>vd_slug = value_of (slug_outcome ser d), vd_title = value_of (title_outcome ser),
       vd_description = value_of (description_outcome ser),
       vd_price = value_of (price_outcome ser),
       vd_categories = value_of (categories_outcome ser d)\<rparr>,
      concat (map (field_errors ser d) (meta_fields (cls ser))))"

text \<open>
  \<^verbatim>\<open>serializer.is_valid()\<close>: without errors the validated data is stored on the
  serializer and the answer is true; with errors they are stored and the answer is false.
\<close>

definition is_valid :: "serializer \<Rightarrow> db \<Rightarrow> bool \<times> serializer" where
  "is_valid ser d =
     (let (v, errs) = run_validation ser d
      in if errs = [] then (True, ser\<lparr>validated := v, errors := []\<rparr>)
         else (False, ser\<lparr>errors := errs\<rparr>))"

text \<open>
  \<^verbatim>\<open>setattr(instance, attr, value)\<close> for every validated column. A new instance starts
  from the model's defaults and has no id yet.
\<close>

definition assign_columns :: "validated_data \<Rightarrow> product \<Rightarrow> product" where
  "assign_columns v r =
     r\<lparr>slug := (case vd_slug v of None \<Rightarrow> slug r | Some s \<Rightarrow> s),
       title := (case vd_title v of None \<Rightarrow> title r | Some t \<Rightarrow> t),
       description := (case vd_description v of None \<Rightarrow> description r | Some t \<Rightarrow> t),
       price := (case vd_price v of None \<Rightarrow> price r | Some n \<Rightarrow> Some n)\<rparr>"

definition blank_product :: "product_model \<Rightarrow> product" where
  "blank_product Product =
     \<lparr>product_id = 0, slug = column_default (slug_column Product),
      title = column_default (title_column Product),
      description = column_default (description_column Product),
      price = price_default Product\<rparr>"

definition assign_categories :: "validated_data \<Rightarrow> int \<Rightarrow> db \<Rightarrow> db" where
  "assign_categories v k d =
     (case vd_categories v of None \<Rightarrow> d | Some ks \<Rightarrow> set_categories k ks d)"

text \<open>
  The model serializer's \<^verbatim>\<open>create(validated_data)\<close> inserts a new row, and its
  \<^verbatim>\<open>update(instance, validated_data)\<close> overwrites the instance's columns and updates
  its row; both then set the relation if it was validated.
\<close>

definition create :: "product_model \<Rightarrow> validated_data \<Rightarrow> db \<Rightarrow> exn + (product \<times> db)" where
  "create Product v d =
     (case insert_product (assign_columns v (blank_product Product)) d of
        Inl e \<Rightarrow> Inl e
      | Inr (r, d') \<Rightarrow> Inr (r, assign_categories v (product_id r) d'))"

definition update :: "product \<Rightarrow> validated_data \<Rightarrow> db \<Rightarrow> exn + (product \<times> db)" where
  "update obj v d =
     (let r = assign_columns v obj
      in case update_product r d of
           Inl e \<Rightarrow> Inl e
         | Inr d' \<Rightarrow> Inr (r, assign_categories v (product_id r) d'))"

text \<open>
  \<^verbatim>\<open>serializer.save()\<close>: \<^verbatim>\<open>create\<close> without an instance, \<^verbatim>\<open>update\<close> with one;
  the serializer then holds the saved instance.
\<close>

definition save :: "serializer \<Rightarrow> db \<Rightarrow> exn + (serializer \<times> db)" where
  "save ser d =
     (case (case inst ser of
              None \<Rightarrow> create (meta_model (cls ser)) (validated ser) d
            | Some obj \<Rightarrow> update obj (validated ser) d) of
        Inl e \<Rightarrow> Inl e
      | Inr (r, d') \<Rightarrow> Inr (ser\<lparr>inst := Some r\<rparr>, d'))"

text \<open>
  \<^verbatim>\<open>to_representation\<close>: the object with one entry per field of \<^verbatim>\<open>Meta.fields\<close>, in
  that order. \<^verbatim>\<open>CategorySerializer\<close> has \<^verbatim>\<open>fields = '__all__'\<close>.
\<close>

definition CategorySerializer_data :: "category \<Rightarrow> json" where
  "CategorySerializer_data c = JObj ((''id'', JInt (category_id c)) # category_columns c)"

definition field_repr :: "product_model \<Rightarrow> db \<Rightarrow> product \<Rightarrow> string \<Rightarrow> json" where
  "field_repr Product d r f =
     (if f = ''id'' then JInt (product_id r)
      else if f = ''slug'' then JStr (slug r)
      else if f = ''title'' then JStr (title r)
      else if f = ''description'' then JStr (description r)
      else if f = ''price'' then (case price r of None \<Rightarrow> JNull | Some n \<Rightarrow> price_repr Product n)
      else if f = ''categories'' then
        JList (map CategorySerializer_data (categories_of d (product_id r)))
      else JNull)"

definition to_representation :: "serializer_class \<Rightarrow> db \<Rightarrow> product \<Rightarrow> json" where
  "to_representation c d r =
     JObj (map (\<lambda>f. (f, field_repr (meta_model c) d r f)) (meta_fields c))"

text \<open>\<^verbatim>\<open>Serializer(queryset, many=True).data\<close> and \<^verbatim>\<open>Serializer(obj).data\<close>.\<close>

definition many_data :: "serializer_class \<Rightarrow> db \<Rightarrow> product list \<Rightarrow> json" where
  "many_data c d rs = JList (map (to_representation c d) rs)"

text \<open>
  \<^verbatim>\<open>serializer.data\<close> after a save is the representation of the saved instance;
  \<^verbatim>\<open>serializer.errors\<close> is the mapping from field names to lists of messages.
\<close>

definition serializer_data :: "serializer \<Rightarrow> db \<Rightarrow> json" where
  "serializer_data ser d =
     (case inst ser of
        None \<Rightarrow> JObj []
      | Some r \<Rightarrow> to_representation (cls ser) d r)"

definition serializer_errors :: "serializer \<Rightarrow> json" where
  "serializer_errors ser = JObj (map (\<lambda>(f, ms). (f, JList (map JStr ms))) (errors ser))"

section \<open>Function-based handlers\<close>

text \<open>
  \<^verbatim>\<open>product/views.py\<close>. A handler takes the model \<^verbatim>\<open>Product\<close> it imports (the
  declaration that is a parameter), the request, the id of the route where it has one, and
  the database; it gives the response (or the exception it left through) and the database
  after it.
\<close>

definition product_list :: "product_model \<Rightarrow> request \<Rightarrow> db \<Rightarrow> (exn + response) \<times> db" where
  "product_list Product request d =
     (let queryset = Product_objects_all d
      in (Inr (Response (Some (many_data (ProductListSerializer Product) d queryset)) None), d))"

definition product_detail :: "product_model \<Rightarrow> request \<Rightarrow> int \<Rightarrow> db \<Rightarrow> (exn + response) \<times> db" where
  "product_detail Product request pk d =
     (case get_object_or_404 d pk of
        Inl e \<Rightarrow> (Inl e, d)
      | Inr obj \<Rightarrow> (Inr (Response (Some (to_representation (ProductDetailSerializer Product) d obj)) None), d))"

definition product_create :: "product_model \<Rightarrow> request \<Rightarrow> db \<Rightarrow> (exn + response) \<times> db" where
  "product_create Product request d =
     (let (ok, serializer) = is_valid (new_serializer (ProductCreateSerializer Product) None (data request) False) d
      in if ok then
           (case save serializer d of
              Inl e \<Rightarrow> (Inl e, d)
            | Inr (serializer', d') \<Rightarrow>
                (Inr (Response (Some (serializer_data serializer' d')) (Some HTTP_201_CREATED)), d'))
         else (Inr (Response (Some (serializer_errors serializer)) (Some HTTP_400_BAD_REQUEST)), d))"

definition product_update :: "product_model \<Rightarrow> request \<Rightarrow> int \<Rightarrow> db \<Rightarrow> (exn + response) \<times> db" where
  "product_update Product request pk d =
     (case get_object_or_404 d pk of
        Inl e \<Rightarrow> (Inl e, d)
      | Inr obj \<Rightarrow>
          (let (ok, serializer) =
                 is_valid (new_serializer (ProductCreateSerializer Product) (Some obj) (data request) False) d
           in if ok then
                (case save serializer d of
                   Inl e \<Rightarrow> (Inl e, d)
                 | Inr (serializer', d') \<Rightarrow>
                     (Inr (Response (Some (serializer_data serializer' d')) None), d'))
              else (Inr (Response (Some (serializer_errors serializer)) (Some HTTP_400_BAD_REQUEST)), d)))"

definition product_partial_update :: "product_model \<Rightarrow> request \<Rightarrow> int \<Rightarrow> db \<Rightarrow> (exn + response) \<times> db" where
  "product_partial_update Product request pk d =
     (case get_object_or_404 d pk of
        Inl e \<Rightarrow> (Inl e, d)
      | Inr obj \<Rightarrow>
          (let (ok, serializer) =
                 is_valid (new_serializer (ProductCreateSerializer Product) (Some obj) (data request) True) d
           in if ok then
                (case save serializer d of
                   Inl e \<Rightarrow> (Inl e, d)
                 | Inr (serializer', d') \<Rightarrow>
                     (Inr (Response (Some (serializer_data serializer' d')) None), d'))
              else (Inr (Response (Some (serializer_errors serializer)) (Some HTTP_400_BAD_REQUEST)), d)))"

definition product_delete :: "product_model \<Rightarrow> request \<Rightarrow> int \<Rightarrow> db \<Rightarrow> (exn + response) \<times> db" where
  "product_delete Product request pk d =
     (case get_object_or_404 d pk of
        Inl e \<Rightarrow> (Inl e, d)
      | Inr obj \<Rightarrow> (Inr (Response None (Some HTTP_204_NO_CONTENT)), delete_product obj d))"

section \<open>The class-based handler\<close>

text \<open>
  \<^verbatim>\<open>product/api_views.py\<close>, one function per method of \<^verbatim>\<open>ProductView\<close>.
  \<^verbatim>\<open>get\<close> has \<^verbatim>\<open>pk=None\<close> as its default.
\<close>

definition ProductView_get :: "product_model \<Rightarrow> request \<Rightarrow> int option \<Rightarrow> db \<Rightarrow> (exn + response) \<times> db" where
  "ProductView_get Product request pk d =
     (case pk of
        None \<Rightarrow>
          (let queryset = Product_objects_all d
           in (Inr (Response (Some (many_data (ProductListSerializer Product) d queryset)) (Some HTTP_200_OK)), d))
      | Some k \<Rightarrow>
          (case get_object_or_404 d k of
             Inl e \<Rightarrow> (Inl e, d)
           | Inr obj \<Rightarrow>
               (Inr (Response (Some (to_representation (ProductDetailSerializer Product) d obj))
                      (Some HTTP_200_OK)), d)))"

definition ProductView_post :: "product_model \<Rightarrow> request \<Rightarrow> db \<Rightarrow> (exn + response) \<times> db" where
  "ProductView_post Product request d =
     (let (ok, serializer) = is_valid (new_serializer (ProductCreateSerializer Product) None (data request) False) d
      in if ok then
           (case save serializer d of
              Inl e \<Rightarrow> (Inl e, d)
            | Inr (serializer', d') \<Rightarrow>
                (Inr (Response (Some (serializer_data serializer' d')) (Some HTTP_201_CREATED)), d'))
         else (Inr (Response (Some (serializer_errors serializer)) (Some HTTP_400_BAD_REQUEST)), d))"

definition ProductView_put :: "product_model \<Rightarrow> request \<Rightarrow> int \<Rightarrow> db \<Rightarrow> (exn + response) \<times> db" where
  "ProductView_put Product request pk d =
     (case get_object_or_404 d pk of
        Inl e \<Rightarrow> (Inl e, d)
      | Inr obj \<Rightarrow>
          (let (ok, serializer) =
                 is_valid (new_serializer (ProductDetailSerializer Product) (Some obj) (data request) False) d
           in if ok then
                (case save serializer d of
                   Inl e \<Rightarrow> (Inl e, d)
                 | Inr (serializer', d') \<Rightarrow>
                     (Inr (Response (Some (serializer_data serializer' d')) (Some HTTP_200_OK)), d'))
              else (Inr (Response (Some (serializer_errors serializer)) (Some HTTP_400_BAD_REQUEST)), d)))"

definition ProductView_patch :: "product_model \<Rightarrow> request \<Rightarrow> int \<Rightarrow> db \<Rightarrow> (exn + response) \<times> db" where
  "ProductView_patch Product request pk d =
     (case get_object_or_404 d pk of
        Inl e \<Rightarrow> (Inl e, d)
      | Inr obj \<Rightarrow>
          (let (ok, serializer) =
                 is_valid (new_serializer (ProductDetailSerializer Product) (Some obj) (data request) True) d
           in if ok then
                (case save serializer d of
                   Inl e \<Rightarrow> (Inl e, d)
                 | Inr (serializer', d') \<Rightarrow>
                     (Inr (Response (Some (serializer_data serializer' d')) (Some HTTP_200_OK)), d'))
              else (Inr (Response (Some (serializer_errors serializer)) (Some HTTP_400_BAD_REQUEST)), d)))"

definition ProductView_delete :: "product_model \<Rightarrow> request \<Rightarrow> int \<Rightarrow> db \<Rightarrow> (exn + response) \<times> db" where
  "ProductView_delete Product request pk d =
     (case get_object_or_404 d pk of
        Inl e \<Rightarrow> (Inl e, d)
      | Inr obj \<Rightarrow> (Inr (Response None (Some HTTP_204_NO_CONTENT)), delete_product obj d))"

section \<open>Routes of the product application\<close>

text \<open>
  \<^verbatim>\<open>product/urls.py\<close>: the six routes of the function-based handlers and the two
  routes \<^verbatim>\<open>class_products/\<close> and \<^verbatim>\<open>class_products/<int:pk>/\<close> of
  \<^verbatim>\<open>ProductView\<close>, one constructor per route and method.
\<close>

datatype call =
    Call_product_list
  | Call_product_detail int
  | Call_product_create
  | Call_product_update int
  | Call_product_partial_update int
  | Call_product_delete int
  | Call_class_get "int option"
  | Call_class_post
  | Call_class_put int
  | Call_class_patch int
  | Call_class_delete int

fun handle :: "product_model \<Rightarrow> call \<Rightarrow> request \<Rightarrow> db \<Rightarrow> (exn + response) \<times> db" where
  "handle Product Call_product_list q d = product_list Product q d"
| "handle Product (Call_product_detail k) q d = product_detail Product q k d"
| "handle Product Call_product_create q d = product_create Product q d"
| "handle Product (Call_product_update k) q d = product_update Product q k d"
| "handle Product (Call_product_partial_update k) q d = product_partial_update Product q k d"
| "handle Product (Call_product_delete k) q d = product_delete Product q k d"
| "handle Product (Call_class_get k) q d = ProductView_get Product q k d"
| "handle Product Call_class_post q d = ProductView_post Product q d"
| "handle Product (Call_class_put k) q d = ProductView_put Product q k d"
| "handle Product (Call_class_patch k) q d = ProductView_patch Product q k d"
| "handle Product (Call_class_delete k) q d = ProductView_delete Product q k d"

text \<open>The database after a sequence of requests, served one after the other.\<close>

fun run :: "product_model \<Rightarrow> (call \<times> request) list \<Rightarrow> db \<Rightarrow> db" where
  "run Product [] d = d"
| "run Product ((c, q) # cs) d = run Product cs (snd (handle Product c q d))"

text \<open>
  The ids of the stored rows, and the property of the id sequence that every stored id was
  handed out by it.
\<close>

definition ids :: "db \<Rightarrow> int set" where
  "ids d = product_id ` set (product_table d)"

definition seq_ok :: "db \<Rightarrow> bool" where
  "seq_ok d = list_all (\<lambda>r. product_id r \<le> product_seq d) (product_table d)"

text \<open>
  The common shape of the six writing handlers, over the serializer class, the instance,
  the request's data, the \<^verbatim>\<open>partial\<close> flag and the status of the success response.
  Each handler is shown below to be an instance of it.
\<close>

definition write_flow ::
  "serializer_class \<Rightarrow> product option \<Rightarrow> (string \<rightharpoonup> json) \<Rightarrow> bool \<Rightarrow> nat option \<Rightarrow> db
     \<Rightarrow> (exn + response) \<times> db" where
  "write_flow c i dt p st d =
     (case run_validation (new_serializer c i dt p) d of
        (v, errs) \<Rightarrow>
          if errs = [] then
            (case (case i of None \<Rightarrow> create (meta_model c) v d | Some obj \<Rightarrow> update obj v d) of
               Inl e \<Rightarrow> (Inl e, d)
             | Inr (r, d') \<Rightarrow> (Inr (Response (Some (to_representation c d' r)) st), d'))
          else (Inr (Response (Some (JObj (map (\<lambda>(f, ms). (f, JList (map JStr ms))) errs)))
                      (Some HTTP_400_BAD_REQUEST)), d))"

text \<open>
  What it is for a handler to refuse a field: the answer is 400, its body is an object
  that holds the field with the given messages, and the database is the one the request
  found.
\<close>

definition rejects :: "(exn + response) \<times> db \<Rightarrow> db \<Rightarrow> string \<Rightarrow> string list \<Rightarrow> bool" where
  "rejects res d f ms =
     (case res of
        (Inr r, d') \<Rightarrow>
          status r = 400 \<and> d' = d
          \<and> (case body r of
                Some (JObj errs) \<Rightarrow> (f, JList (map JStr ms)) \<in> set errs
              | _ \<Rightarrow> False)
      | (Inl e, d') \<Rightarrow> False)"

section \<open>Authors\<close>

text \<open>
  \<^verbatim>\<open>authors/models.py\<close>: an author has a full name and a date of birth (year, month,
  day), and the id every model has.
\<close>

record author =
  author_id :: int
  fullname :: string
  born_date :: "nat \<times> nat \<times> nat"

text \<open>
  \<^verbatim>\<open>authors/urls.py\<close>: a route is a sequence of literal pieces and
  \<^verbatim>\<open><int:name>\<close> converters; \<^verbatim>\<open>urlpatterns\<close> lists each route with its view and its
  name. A path matches a route when the whole path is consumed; a converter takes the
  longest run of digits, which must not be empty.
\<close>

datatype part = Lit string | IntConv string

datatype view = View_authors_list | View_author_detail

definition urlpatterns :: "(part list \<times> view \<times> string) list" where
  "urlpatterns =
     [([], View_authors_list, ''authors-list''),
      ([IntConv ''pk'', Lit ''/''], View_author_detail, ''author-detail'')]"

fun match_route :: "part list \<Rightarrow> string \<Rightarrow> (string \<times> int) list option" where
  "match_route [] path = (if path = [] then Some [] else None)"
| "match_route (Lit s # ps) path =
     (if take (length s) path = s then match_route ps (drop (length s) path) else None)"
| "match_route (IntConv n # ps) path =
     (let ds = takeWhile is_digit path
      in if ds = [] then None
         else case match_route ps (dropWhile is_digit path) of
                None \<Rightarrow> None
              | Some kw \<Rightarrow> Some ((n, digits_value ds) # kw))"

fun resolve :: "(part list \<times> view \<times> string) list \<Rightarrow> string \<Rightarrow> (view \<times> (string \<times> int) list) option" where
  "resolve [] path = None"
| "resolve ((route, v, n) # rest) path =
     (case match_route route path of
        None \<Rightarrow> resolve rest path
      | Some kw \<Rightarrow> Some (v, kw))"

datatype http_method = GET | POST | PUT | PATCH | DELETE

record author_response =
  author_status :: nat
  author_body :: "author list"

text \<open>
  Modelled from the spec: \<^verbatim>\<open>authors/views.py\<close> (the views \<^verbatim>\<open>authors_list\<close> and
  \<^verbatim>\<open>author_detail\<close> that \<^verbatim>\<open>authors/urls.py\<close> imports) is not among the sources.
  The spec gives the author service a read-only list and a read-only detail lookup:
  listing returns all stored authors in storage order, a missing id is a 404, and there
  is no writing surface, so a method other than GET is refused (405) without touching
  the stored authors.
\<close>

definition authors_list :: "http_method \<Rightarrow> author list \<Rightarrow> author_response \<times> author list" where
  "authors_list m tbl =
     (if m = GET then (\<lparr>author_status = 200, author_body = tbl\<rparr>, tbl)
      else (\<lparr>author_status = 405, author_body = []\<rparr>, tbl))"

definition author_detail :: "http_method \<Rightarrow> int \<Rightarrow> author list \<Rightarrow> author_response \<times> author list" where
  "author_detail m pk tbl =
     (if m = GET then
        (case find (\<lambda>a. author_id a = pk) tbl of
           None \<Rightarrow> (\<lparr>author_status = 404, author_body = []\<rparr>, tbl)
         | Some a \<Rightarrow> (\<lparr>author_status = 200, author_body = [a]\<rparr>, tbl))
      else (\<lparr>author_status = 405, author_body = []\<rparr>, tbl))"

text \<open>
  Serving a request of the author application: the path is resolved against
  \<^verbatim>\<open>urlpatterns\<close>; no route is a 404; otherwise the route's view is called with the
  captured \<^verbatim>\<open>pk\<close>.
\<close>

definition authors_dispatch :: "http_method \<Rightarrow> string \<Rightarrow> author list \<Rightarrow> author_response \<times> author list" where
  "authors_dispatch m path tbl =
     (case resolve urlpatterns path of
        None \<Rightarrow> (\<lparr>author_status = 404, author_body = []\<rparr>, tbl)
      | Some (View_authors_list, kw) \<Rightarrow> authors_list m tbl
      | Some (View_author_detail, kw) \<Rightarrow>
          (case map_of kw ''pk'' of
             None \<Rightarrow> (\<lparr>author_status = 500, author_body = []\<rparr>, tbl)
           | Some k \<Rightarrow> author_detail m k tbl))"

section \<open>The custom user model\<close>

text \<open>
  \<^verbatim>\<open>user/models.py\<close>. The declaration of a character column: its maximal length,
  whether it may be left blank, whether its values are unique. \<^verbatim>\<open>EmailField\<close> has the
  maximal length 254 unless told otherwise. The columns the base classes bring (password,
  last login, permissions) play no part below and are left out.
\<close>

record char_field =
  max_length :: nat
  blank :: bool
  unique :: bool

definition email_field :: char_field where
  "email_field = \<lparr>max_length = 254, blank = False, unique = True\<rparr>"

definition first_name_field :: char_field where
  "first_name_field = \<lparr>max_length = 30, blank = True, unique = False\<rparr>"

definition last_name_field :: char_field where
  "last_name_field = \<lparr>max_length = 30, blank = True, unique = False\<rparr>"

definition is_active_default :: bool where "is_active_default = True"
definition is_staff_default :: bool where "is_staff_default = False"

definition USERNAME_FIELD :: string where "USERNAME_FIELD = ''email''"
definition REQUIRED_FIELDS :: "string list" where "REQUIRED_FIELDS = []"

record custom_user =
  email :: string
  first_name :: string
  last_name :: string
  is_active :: bool
  is_staff :: bool
  date_joined :: int

text \<open>The keyword arguments of \<^verbatim>\<open>CustomUser(...)\<close>: each column given or not.\<close>

record user_kwargs =
  kw_email :: "string option"
  kw_first_name :: "string option"
  kw_last_name :: "string option"
  kw_is_active :: "bool option"
  kw_is_staff :: "bool option"
  kw_date_joined :: "int option"

text \<open>
  Building an instance: a column that is not given takes its default. A character column
  without a declared default is the empty string; \<^verbatim>\<open>default=timezone.now\<close> reads the
  clock when the instance is built, so the clock's reading \<open>now\<close> is an argument.
\<close>

definition CustomUser :: "int \<Rightarrow> user_kwargs \<Rightarrow> custom_user" where
  "CustomUser now kw =
     \<lparr>email = (case kw_email kw of None \<Rightarrow> [] | Some e \<Rightarrow> e),
      first_name = (case kw_first_name kw of None \<Rightarrow> [] | Some n \<Rightarrow> n),
      last_name = (case kw_last_name kw of None \<Rightarrow> [] | Some n \<Rightarrow> n),
      is_active = (case kw_is_active kw of None \<Rightarrow> is_active_default | Some b \<Rightarrow> b),
      is_staff = (case kw_is_staff kw of None \<Rightarrow> is_staff_default | Some b \<Rightarrow> b),
      date_joined = (case kw_date_joined kw of None \<Rightarrow> now | Some t \<Rightarrow> t)\<rparr>"

text \<open>\<^verbatim>\<open>__str__\<close> returns the email.\<close>

definition user_str :: "custom_user \<Rightarrow> string" where
  "user_str u = email u"

text \<open>
  Field validation of a character column (the model's \<^verbatim>\<open>clean_fields\<close>): an empty
  value is an error unless the column may be blank, in which case nothing else is checked;
  a value that is not empty is given to the validators of the column and then checked
  against the maximal length, and the messages are collected. Whether a text is a
  well-formed email address is decided by the framework's email validator, which is a
  parameter here.
\<close>

definition max_length_message :: "nat \<Rightarrow> nat \<Rightarrow> string" where
  "max_length_message limit n =
     ''Ensure this value has at most '' @ nat_str limit
       @ (if limit = 1 then '' character'' else '' characters'')
       @ '' (it has '' @ nat_str n @ '').''"

definition validate_email :: "(string \<Rightarrow> bool) \<Rightarrow> string \<Rightarrow> string list" where
  "validate_email well_formed v = (if well_formed v then [] else [''Enter a valid email address.''])"

definition clean_char :: "char_field \<Rightarrow> (string \<Rightarrow> string list) list \<Rightarrow> string \<Rightarrow> string list" where
  "clean_char f vs v =
     (if v = [] then (if blank f then [] else [''This field cannot be blank.''])
      else concat (map (\<lambda>c. c v) vs)
           @ (if max_length f < length v then [max_length_message (max_length f) (length v)]
              else []))"

definition clean_fields :: "(string \<Rightarrow> bool) \<Rightarrow> custom_user \<Rightarrow> (string \<times> string list) list" where
  "clean_fields well_formed u =
     filter (\<lambda>(f, ms). ms \<noteq> [])
       [(''email'', clean_char email_field [validate_email well_formed] (email u)),
        (''first_name'', clean_char first_name_field [] (first_name u)),
        (''last_name'', clean_char last_name_field [] (last_name u))]"

text \<open>
  Storing a new user: the storage layer refuses a row whose value in a unique column is
  already held by a stored row.
\<close>

definition save_user :: "custom_user \<Rightarrow> custom_user list \<Rightarrow> exn + custom_user list" where
  "save_user u tbl =
     (if unique email_field \<and> email u \<in> set (map email tbl) then Inl IntegrityError
      else Inr (tbl @ [u]))"

section \<open>An integer column, for instance\<close>

text \<open>
  The framework's integer field, as one numeric declaration of price. A string longer than
  1000 characters is refused; the text of a string or float loses a final
  \<^verbatim>\<open>.\<close> followed by zeros and whitespace and is then read as Python's
  \<^verbatim>\<open>int()\<close> reads it (surrounding whitespace, an optional sign, digits with single
  underscores between them); an integer is taken as it is; then the value is checked
  against the largest and the smallest value of the column.
\<close>

definition re_decimal_sub :: "string \<Rightarrow> string" where
  "re_decimal_sub s =
     (case dropWhile (\<lambda>c. c = CHR ''0'') (dropWhile is_space (rev s)) of
        [] \<Rightarrow> s
      | c # r \<Rightarrow> if c = CHR ''.'' then rev r else s)"

fun single_underscores :: "string \<Rightarrow> bool" where
  "single_underscores (a # b # r) =
     (\<not> (a = CHR ''_'' \<and> b = CHR ''_'') \<and> single_underscores (b # r))"
| "single_underscores _ = True"

definition digits_ok :: "string \<Rightarrow> bool" where
  "digits_ok u =
     (u \<noteq> [] \<and> is_digit (hd u) \<and> is_digit (last u)
      \<and> list_all (\<lambda>c. is_digit c \<or> c = CHR ''_'') u \<and> single_underscores u)"

definition python_int :: "string \<Rightarrow> int option" where
  "python_int s =
     (let t = strip s;
          neg = (t \<noteq> [] \<and> hd t = CHR ''-'');
          u = (if t \<noteq> [] \<and> (hd t = CHR ''-'' \<or> hd t = CHR ''+'') then tl t else t)
      in if digits_ok u
         then Some ((if neg then - 1 else 1) * digits_value (filter is_digit u))
         else None)"

definition max_value_validator :: "int \<Rightarrow> int \<Rightarrow> string list" where
  "max_value_validator hi n =
     (if hi < n then [''Ensure this value is less than or equal to '' @ int_str hi @ ''.'']
      else [])"

definition min_value_validator :: "int \<Rightarrow> int \<Rightarrow> string list" where
  "min_value_validator lo n =
     (if n < lo then [''Ensure this value is greater than or equal to '' @ int_str lo @ ''.'']
      else [])"

definition IntegerField :: "int \<Rightarrow> int \<Rightarrow> json \<Rightarrow> string list + int" where
  "IntegerField lo hi x =
     (let check = run_validators [max_value_validator hi, min_value_validator lo];
          parse = (\<lambda>t. case python_int (re_decimal_sub t) of
                          None \<Rightarrow> Inl [''A valid integer is required.'']
                        | Some n \<Rightarrow> check n)
      in case x of
           JNull \<Rightarrow> Inl [''This field may not be null.'']
         | JInt n \<Rightarrow> check n
         | JStr s \<Rightarrow> if 1000 < length s then Inl [''String value too large.''] else parse s
         | JFloat r \<Rightarrow> parse r
         | _ \<Rightarrow> Inl [''A valid integer is required.''])"

text \<open>The validators the serializer's character field adds for a column.\<close>

definition max_length_validator :: "nat \<Rightarrow> string \<Rightarrow> string list" where
  "max_length_validator n s =
     (if n < length s then [''Ensure this field has no more than '' @ nat_str n @ '' characters.'']
      else [])"

definition prohibit_null_characters :: "string \<Rightarrow> string list" where
  "prohibit_null_characters s =
     (if CHR 0x00 \<in> set s then [''Null characters are not allowed.''] else [])"

section \<open>Example data\<close>

text \<open>
  One declaration of \<^verbatim>\<open>Product\<close> that fits the spec, for running the handlers on
  concrete inputs: slug and title are required character columns of at most 255
  characters, description is a required text column, and price is a required integer
  column of 64 bits. Then a small database and some requests.
\<close>

definition example_model :: product_model where
  "example_model =
     \<lparr>slug_column = \<lparr>required = True, allow_blank = False, model_validators = [],
                      field_validators = [max_length_validator 255, prohibit_null_characters],
                      column_default = []\<rparr>,
      title_column = \<lparr>required = True, allow_blank = False, model_validators = [],
                       field_validators = [max_length_validator 255, prohibit_null_characters],
                       column_default = []\<rparr>,
      description_column = \<lparr>required = True, allow_blank = False, model_validators = [],
                             field_validators = [prohibit_null_characters],
                             column_default = []\<rparr>,
      price_required = True,
      price_default = None,
      price_field = IntegerField (- 9223372036854775808) 9223372036854775807,
      price_repr = JInt\<rparr>"

definition example_db :: db where
  "example_db =
     \<lparr>product_table =
        [\<lparr>product_id = 1, slug = ''tea'', title = ''Tea'', description = ''Green tea'', price = Some 5\<rparr>,
         \<lparr>product_id = 2, slug = ''mug'', title = ''Mug'', description = ''A mug'', price = Some 7\<rparr>],
      product_seq = 2,
      category_table = [\<lparr>category_id = 1, category_columns = [(''name'', JStr ''drinks'')]\<rparr>],
      product_categories = [(1, 1)]\<rparr>"

definition empty_db :: db where
  "empty_db = \<lparr>product_table = [], product_seq = 0, category_table = [], product_categories = []\<rparr>"

definition example_request :: request where
  "example_request =
     \<lparr>data = [''slug'' \<mapsto> JStr ''jam'', ''title'' \<mapsto> JStr ''Jam'', ''price'' \<mapsto> JInt 3,
              ''description'' \<mapsto> JStr ''Plum'', ''categories'' \<mapsto> JList [JInt 1]]\<rparr>"

definition example_duplicate :: request where
  "example_duplicate =
     \<lparr>data = [''slug'' \<mapsto> JStr ''tea'', ''title'' \<mapsto> JStr ''More tea'', ''price'' \<mapsto> JInt 4]\<rparr>"

definition example_invalid :: request where
  "example_invalid =
     \<lparr>data = [''slug'' \<mapsto> JStr ''mug'', ''title'' \<mapsto> JNull,
              ''description'' \<mapsto> JStr ''A mug'']\<rparr>"

text \<open>
  A request whose title has surrounding blanks, one whose title is empty, one whose slug
  is blank, and a database that holds a slug with a leading blank (written by other means
  than these handlers) together with a request for that very slug.
\<close>

definition example_padded :: request where
  "example_padded =
     \<lparr>data = [''slug'' \<mapsto> JStr ''jam'', ''title'' \<mapsto> JStr '' Jam '', ''price'' \<mapsto> JInt 3]\<rparr>"

definition example_blank :: request where
  "example_blank =
     \<lparr>data = [''slug'' \<mapsto> JStr ''jam'', ''title'' \<mapsto> JStr [], ''price'' \<mapsto> JInt 3]\<rparr>"

definition example_blank_slug :: request where
  "example_blank_slug =
     \<lparr>data = [''slug'' \<mapsto> JStr ''  '', ''title'' \<mapsto> JStr ''Jam'', ''price'' \<mapsto> JInt 3]\<rparr>"

definition padded_db :: db where
  "padded_db =
     \<lparr>product_table =
        [\<lparr>product_id = 1, slug = '' tea'', title = ''Tea'', description = ''Green tea'', price = Some 5\<rparr>],
      product_seq = 1,
      category_table = [],
      product_categories = []\<rparr>"

definition padded_request :: request where
  "padded_request =
     \<lparr>data = [''slug'' \<mapsto> JStr '' tea'', ''title'' \<mapsto> JStr ''Tea'', ''price'' \<mapsto> JInt 4]\<rparr>"

definition example_authors :: "author list" where
  "example_authors =
     [\<lparr>author_id = 1, fullname = ''Ada Lovelace'', born_date = (1815, 12, 10)\<rparr>,
      \<lparr>author_id = 2, fullname = ''Alan Turing'', born_date = (1912, 6, 23)\<rparr>]"

definition example_kwargs :: user_kwargs where
  "example_kwargs =
     \<lparr>kw_email = Some ''ada@example.org'', kw_first_name = None, kw_last_name = None,
      kw_is_active = None, kw_is_staff = None, kw_date_joined = None\<rparr>"

definition example_users :: "custom_user list" where
  "example_users =
     [\<lparr>email = ''alan@example.org'', first_name = ''Alan'', last_name = [], is_active = True,
       is_staff = True, date_joined = 100\<rparr>]"


section \<open>The writing handlers as instances of one flow\<close>

lemma new_serializer_sel [simp]:
  "cls (new_serializer c i dt p) = c"
  "inst (new_serializer c i dt p) = i"
  "initial_data (new_serializer c i dt p) = dt"
  "partial (new_serializer c i dt p) = p"
  by (simp_all add: new_serializer_def)

lemma flow_aux:
  "(let (ok, serializer) = is_valid (new_serializer c i dt p) d
    in if ok then
         (case save serializer d of
            Inl e \<Rightarrow> (Inl e, d)
          | Inr (serializer', d') \<Rightarrow> (Inr (Response (Some (serializer_data serializer' d')) st), d'))
       else (Inr (Response (Some (serializer_errors serializer)) (Some HTTP_400_BAD_REQUEST)), d))
   = write_flow c i dt p st d"
  by (cases "run_validation (new_serializer c i dt p) d")
     (auto simp: is_valid_def save_def serializer_data_def serializer_errors_def write_flow_def
        new_serializer_def split: sum.splits option.splits)

lemma product_create_flow:
  "product_create M request d =
     write_flow (ProductCreateSerializer M) None (data request) False (Some HTTP_201_CREATED) d"
  unfolding product_create_def by (rule flow_aux)

lemma product_update_flow:
  "product_update M request pk d =
     (case get_object_or_404 d pk of
        Inl e \<Rightarrow> (Inl e, d)
      | Inr obj \<Rightarrow> write_flow (ProductCreateSerializer M) (Some obj) (data request) False None d)"
  unfolding product_update_def flow_aux ..

lemma product_partial_update_flow:
  "product_partial_update M request pk d =
     (case get_object_or_404 d pk of
        Inl e \<Rightarrow> (Inl e, d)
      | Inr obj \<Rightarrow> write_flow (ProductCreateSerializer M) (Some obj) (data request) True None d)"
  unfolding product_partial_update_def flow_aux ..

lemma ProductView_post_flow:
  "ProductView_post M request d =
     write_flow (ProductCreateSerializer M) None (data request) False (Some HTTP_201_CREATED) d"
  unfolding ProductView_post_def by (rule flow_aux)

lemma ProductView_put_flow:
  "ProductView_put M request pk d =
     (case get_object_or_404 d pk of
        Inl e \<Rightarrow> (Inl e, d)
      | Inr obj \<Rightarrow>
          write_flow (ProductDetailSerializer M) (Some obj) (data request) False (Some HTTP_200_OK) d)"
  unfolding ProductView_put_def flow_aux ..

lemma ProductView_patch_flow:
  "ProductView_patch M request pk d =
     (case get_object_or_404 d pk of
        Inl e \<Rightarrow> (Inl e, d)
      | Inr obj \<Rightarrow>
          write_flow (ProductDetailSerializer M) (Some obj) (data request) True (Some HTTP_200_OK) d)"
  unfolding ProductView_patch_def flow_aux ..

lemma run_field_frame:
  "f' \<noteq> f \<or> \<not> writable c f \<Longrightarrow> run_field (new_serializer c i (dt(f := v)) p) f' req field
     = run_field (new_serializer c i dt p) f' req field"
  by (auto simp add: run_field_def)

lemma outcome_frame:
  assumes "\<not> writable c f"
  shows "slug_outcome (new_serializer c i (dt(f := v)) p) d = slug_outcome (new_serializer c i dt p) d"
    and "title_outcome (new_serializer c i (dt(f := v)) p) = title_outcome (new_serializer c i dt p)"
    and "description_outcome (new_serializer c i (dt(f := v)) p)
           = description_outcome (new_serializer c i dt p)"
    and "price_outcome (new_serializer c i (dt(f := v)) p) = price_outcome (new_serializer c i dt p)"
    and "categories_outcome (new_serializer c i (dt(f := v)) p) d
           = categories_outcome (new_serializer c i dt p) d"
  using assms
  by (simp_all add: slug_outcome_def title_outcome_def description_outcome_def price_outcome_def
      categories_outcome_def run_field_frame)

lemma field_errors_frame:
  assumes "\<not> writable c f"
  shows "field_errors (new_serializer c i (dt(f := v)) p) d = field_errors (new_serializer c i dt p) d"
  by (rule ext) (simp add: field_errors_def outcome_frame[OF assms])

lemma run_validation_frame:
  assumes "\<not> writable c f"
  shows "run_validation (new_serializer c i (dt(f := v)) p) d
       = run_validation (new_serializer c i dt p) d"
  by (simp add: run_validation_def outcome_frame[OF assms] field_errors_frame[OF assms])

lemma write_flow_frame:
  "\<not> writable c f \<Longrightarrow> write_flow c i (dt(f := v)) p st d = write_flow c i dt p st d"
  by (simp add: write_flow_def run_validation_frame)

lemma get_object_or_404_Inr:
  "get_object_or_404 d k = Inr r \<Longrightarrow> product_id r = k \<and> r \<in> set (product_table d)"
  by (auto simp: get_object_or_404_def find_Some_iff split: option.splits)

lemma get_object_or_404_Inl:
  "get_object_or_404 d k = Inl e \<Longrightarrow> e = Http404 \<and> k \<notin> ids d"
  by (auto simp: get_object_or_404_def ids_def find_None_iff split: option.splits)

lemma get_object_or_404_missing:
  "k \<notin> ids d \<Longrightarrow> get_object_or_404 d k = Inl Http404"
  by (auto simp: get_object_or_404_def ids_def find_None_iff split: option.splits)

lemma writable_create:
  "writable (ProductCreateSerializer M) f = (f = ''slug'' \<or> f = ''title'' \<or> f = ''price'')"
  by (auto simp: writable_def ProductCreateSerializer_def)

lemma writable_detail:
  "writable (ProductDetailSerializer M) f =
     (f = ''slug'' \<or> f = ''title'' \<or> f = ''description'' \<or> f = ''price'')"
  by (auto simp: writable_def ProductDetailSerializer_def)

lemma not_writable_categories_create: "\<not> writable (ProductCreateSerializer M) ''categories''"
  by (simp add: writable_create)

lemma not_writable_categories_detail: "\<not> writable (ProductDetailSerializer M) ''categories''"
  by (simp add: writable_detail)

lemma meta_model_class [simp]:
  "meta_model (ProductCreateSerializer M) = M"
  "meta_model (ProductDetailSerializer M) = M"
  "meta_model (ProductListSerializer M) = M"
  by (simp_all add: ProductCreateSerializer_def ProductDetailSerializer_def ProductListSerializer_def)

lemma run_field_unwritable:
  "\<not> writable c f \<Longrightarrow> run_field (new_serializer c i dt p) f req field = Absent"
  by (simp add: run_field_def)

lemma run_validation_unwritable_categories:
  "\<not> writable c ''categories'' \<Longrightarrow>
     vd_categories (fst (run_validation (new_serializer c i dt p) d)) = None"
  by (simp add: run_validation_def categories_outcome_def run_field_unwritable)

lemma run_validation_unwritable_description:
  "\<not> writable c ''description'' \<Longrightarrow>
     vd_description (fst (run_validation (new_serializer c i dt p) d)) = None"
  by (simp add: run_validation_def description_outcome_def run_field_unwritable)

lemma create_Inr:
  assumes "vd_categories v = None" and "create M v d = Inr (r, d')"
  shows "row_ok d (assign_columns v (blank_product M)) None
       \<and> r = (assign_columns v (blank_product M))\<lparr>product_id := product_seq d + 1\<rparr>
       \<and> d' = d\<lparr>product_table := product_table d @ [r], product_seq := product_seq d + 1\<rparr>"
proof (cases "row_ok d (assign_columns v (blank_product M)) None")
  case True
  then show ?thesis
    using assms by (auto simp add: create_def insert_product_def assign_categories_def Let_def)
next
  case False
  then show ?thesis using assms by (simp add: create_def insert_product_def)
qed

lemma update_Inr:
  assumes "vd_categories v = None" and "update obj v d = Inr (r, d')"
  shows "row_ok d r (Some (product_id r)) \<and> r = assign_columns v obj
       \<and> d' = d\<lparr>product_table :=
                  map (\<lambda>x. if product_id x = product_id r then r else x) (product_table d)\<rparr>"
proof (cases "row_ok d (assign_columns v obj) (Some (product_id (assign_columns v obj)))")
  case True
  then show ?thesis
    using assms by (auto simp add: update_def update_product_def assign_categories_def Let_def)
next
  case False
  then show ?thesis using assms by (simp add: update_def update_product_def Let_def)
qed


lemma update_ok:
  assumes "vd_categories v = None"
      and "row_ok d (assign_columns v obj) (Some (product_id (assign_columns v obj)))"
  shows "update obj v d =
           Inr (assign_columns v obj,
                d\<lparr>product_table :=
                    map (\<lambda>x. if product_id x = product_id (assign_columns v obj)
                             then assign_columns v obj else x) (product_table d)\<rparr>)"
  using assms by (simp add: update_def update_product_def assign_categories_def Let_def)

lemma create_relation_frame:
  assumes "vd_categories v = None" and "create M v d = Inr (r, d')"
  shows "product_categories d' = product_categories d \<and> category_table d' = category_table d"
  using create_Inr[OF assms] by simp

lemma update_relation_frame:
  assumes "vd_categories v = None" and "update obj v d = Inr (r, d')"
  shows "product_categories d' = product_categories d \<and> category_table d' = category_table d"
proof -
  have "d' = d\<lparr>product_table :=
                  map (\<lambda>x. if product_id x = product_id r then r else x) (product_table d)\<rparr>"
    using update_Inr[OF assms] by simp
  then show ?thesis by simp
qed

lemma write_flow_relation_frame:
  assumes "\<not> writable c ''categories''"
  shows "product_categories (snd (write_flow c i dt p st d)) = product_categories d
       \<and> category_table (snd (write_flow c i dt p st d)) = category_table d"
proof (cases "run_validation (new_serializer c i dt p) d")
  case (Pair v errs)
  have v: "vd_categories v = None"
    using run_validation_unwritable_categories[OF assms, of i dt p d] Pair by simp
  define res where "res = (case i of None \<Rightarrow> create (meta_model c) v d | Some obj \<Rightarrow> update obj v d)"
  have wf: "write_flow c i dt p st d =
      (if errs = [] then
         (case res of Inl e \<Rightarrow> (Inl e, d)
          | Inr (r, d') \<Rightarrow> (Inr (Response (Some (to_representation c d' r)) st), d'))
       else (Inr (Response (Some (JObj (map (\<lambda>(f, ms). (f, JList (map JStr ms))) errs)))
                      (Some HTTP_400_BAD_REQUEST)), d))"
    by (simp add: write_flow_def Pair res_def)
  show ?thesis
  proof (cases res)
    case (Inl e)
    then show ?thesis by (simp add: wf)
  next
    case (Inr x)
    obtain r d' where x: "x = (r, d')" by (cases x)
    have "product_categories d' = product_categories d \<and> category_table d' = category_table d"
    proof (cases i)
      case None
      then have "create (meta_model c) v d = Inr (r, d')" using Inr x by (simp add: res_def)
      then show ?thesis by (rule create_relation_frame[OF v])
    next
      case (Some obj)
      then have "update obj v d = Inr (r, d')" using Inr x by (simp add: res_def)
      then show ?thesis by (rule update_relation_frame[OF v])
    qed
    then show ?thesis by (simp add: wf Inr x)
  qed
qed

section \<open>The two implementations of reading and deleting\<close>

text \<open>
  Claim C2. For every declaration of the model, every request and every database, the
  function-based handlers \<^verbatim>\<open>product_list\<close>, \<^verbatim>\<open>product_detail\<close> and
  \<^verbatim>\<open>product_delete\<close> give the same response (status and body, or the same exception)
  and the same database afterwards as the \<^verbatim>\<open>get\<close> (without and with an id) and
  \<^verbatim>\<open>delete\<close> methods of \<^verbatim>\<open>ProductView\<close>.
\<close>

theorem function_handlers_agree_with_class:
  "product_list M request d = ProductView_get M request None d
   \<and> product_detail M request pk d = ProductView_get M request (Some pk) d
   \<and> product_delete M request pk d = ProductView_delete M request pk d"
  by (simp add: product_list_def product_detail_def product_delete_def ProductView_get_def
      ProductView_delete_def Response_def HTTP_200_OK_def split: sum.splits)

theorem function_handlers_agree_with_class_witness:
  "product_list example_model example_request example_db
     = ProductView_get example_model example_request None example_db
   \<and> product_detail example_model example_request 1 example_db
     = ProductView_get example_model example_request (Some 1) example_db
   \<and> product_delete example_model example_request 1 example_db
     = ProductView_delete example_model example_request 1 example_db"
  by (rule function_handlers_agree_with_class)

section \<open>The relation to categories is not written\<close>

text \<open>
  Claim C7. Through the class-based handler, which validates PUT and PATCH with
  \<^verbatim>\<open>ProductDetailSerializer\<close>, the categories of every product are after the request
  what they were before it, and the request's \<^verbatim>\<open>categories\<close> entry (any value, or none)
  has no influence on the response or on the database.
\<close>

theorem categories_read_only:
  "categories_of (snd (ProductView_put M request pk d)) k = categories_of d k
   \<and> categories_of (snd (ProductView_patch M request pk d)) k = categories_of d k
   \<and> ProductView_put M (request\<lparr>data := (data request)(''categories'' := v)\<rparr>) pk d
       = ProductView_put M request pk d
   \<and> ProductView_patch M (request\<lparr>data := (data request)(''categories'' := v)\<rparr>) pk d
       = ProductView_patch M request pk d"
proof -
  have frame: "categories_of (snd (write_flow (ProductDetailSerializer M) i dt p st d)) k = categories_of d k"
    for i dt p st
    using write_flow_relation_frame[of "ProductDetailSerializer M" i dt p st d]
    by (simp add: categories_of_def writable_detail)
  have put: "categories_of (snd (ProductView_put M request pk d)) k = categories_of d k"
    by (cases "get_object_or_404 d pk") (simp_all add: ProductView_put_flow frame)
  have patch: "categories_of (snd (ProductView_patch M request pk d)) k = categories_of d k"
    by (cases "get_object_or_404 d pk") (simp_all add: ProductView_patch_flow frame)
  have put': "ProductView_put M (request\<lparr>data := (data request)(''categories'' := v)\<rparr>) pk d
       = ProductView_put M request pk d"
    by (cases "get_object_or_404 d pk") (simp_all add: ProductView_put_flow write_flow_frame writable_detail)
  have patch': "ProductView_patch M (request\<lparr>data := (data request)(''categories'' := v)\<rparr>) pk d
       = ProductView_patch M request pk d"
    by (cases "get_object_or_404 d pk") (simp_all add: ProductView_patch_flow write_flow_frame writable_detail)
  show ?thesis using put patch put' patch' by simp
qed

theorem categories_read_only_witness:
  "categories_of (snd (ProductView_put example_model example_request 1 example_db)) 1
     = categories_of example_db 1
   \<and> categories_of (snd (ProductView_patch example_model example_request 1 example_db)) 1
     = categories_of example_db 1
   \<and> ProductView_put example_model
        (example_request\<lparr>data := (data example_request)(''categories'' := None)\<rparr>) 1 example_db
       = ProductView_put example_model example_request 1 example_db
   \<and> ProductView_patch example_model
        (example_request\<lparr>data := (data example_request)(''categories'' := None)\<rparr>) 1 example_db
       = ProductView_patch example_model example_request 1 example_db"
  by (rule categories_read_only)


section \<open>Fields, one by one\<close>

lemma run_field_present:
  assumes "writable c f" and "dt f = Some x"
  shows "run_field (new_serializer c i dt p) f req field
       = (case field x of Inl ms \<Rightarrow> Bad ms | Inr v \<Rightarrow> Good v)"
  using assms by (simp add: run_field_def)

lemma run_field_missing:
  assumes "writable c f" and "dt f = None"
  shows "run_field (new_serializer c i dt p) f req field
       = (if p then Absent else if req then Bad [''This field is required.''] else Absent)"
  using assms by (simp add: run_field_def)

lemma errors_create:
  "snd (run_validation (new_serializer (ProductCreateSerializer M) i dt p) d)
     = error_of ''slug'' (slug_outcome (new_serializer (ProductCreateSerializer M) i dt p) d)
       @ error_of ''title'' (title_outcome (new_serializer (ProductCreateSerializer M) i dt p))
       @ error_of ''price'' (price_outcome (new_serializer (ProductCreateSerializer M) i dt p))"
  by (simp add: run_validation_def field_errors_def ProductCreateSerializer_def)

lemma categories_outcome_detail:
  "categories_outcome (new_serializer (ProductDetailSerializer M) i dt p) d = Absent"
  by (simp add: categories_outcome_def run_field_unwritable writable_detail)

lemma errors_detail:
  "snd (run_validation (new_serializer (ProductDetailSerializer M) i dt p) d)
     = error_of ''slug'' (slug_outcome (new_serializer (ProductDetailSerializer M) i dt p) d)
       @ error_of ''title'' (title_outcome (new_serializer (ProductDetailSerializer M) i dt p))
       @ error_of ''description''
           (description_outcome (new_serializer (ProductDetailSerializer M) i dt p))
       @ error_of ''price'' (price_outcome (new_serializer (ProductDetailSerializer M) i dt p))"
proof -
  have "field_errors (new_serializer (ProductDetailSerializer M) i dt p) d ''categories'' = []"
    by (simp add: field_errors_def categories_outcome_detail)
  then show ?thesis
    by (simp add: run_validation_def field_errors_def[of _ _ "''id''"]
        field_errors_def[of _ _ "''slug''"] field_errors_def[of _ _ "''title''"]
        field_errors_def[of _ _ "''description''"] field_errors_def[of _ _ "''price''"]
        ProductDetailSerializer_def)
qed






lemma write_flow_rejected:
  assumes "snd (run_validation (new_serializer c i dt p) d) \<noteq> []"
  shows "write_flow c i dt p st d =
           (Inr \<lparr>status = 400,
                 body = Some (JObj (map (\<lambda>(f, ms). (f, JList (map JStr ms)))
                          (snd (run_validation (new_serializer c i dt p) d))))\<rparr>, d)"
  using assms
  by (cases "run_validation (new_serializer c i dt p) d")
     (simp add: write_flow_def Response_def HTTP_400_BAD_REQUEST_def)

lemma rejected_entry:
  assumes "(f, ms) \<in> set (snd (run_validation (new_serializer c i dt p) d))"
  shows "rejects (write_flow c i dt p st d) d f ms"
proof -
  let ?errs = "snd (run_validation (new_serializer c i dt p) d)"
  have ne: "?errs \<noteq> []" using assms by auto
  have "(f, JList (map JStr ms)) \<in> set (map (\<lambda>(f, ms). (f, JList (map JStr ms))) ?errs)"
    using assms by force
  then show ?thesis
    by (simp add: write_flow_rejected[OF ne] rejects_def)
qed

section \<open>Creating a product\<close>

lemma run_validation_create_full:
  assumes "dt ''slug'' = Some xs" and "slug_field M d i xs = Inr s"
      and "dt ''title'' = Some xt" and "title_field M xt = Inr t"
      and "dt ''price'' = Some xp" and "price_field M xp = Inr n"
  shows "run_validation (new_serializer (ProductCreateSerializer M) i dt p) d =
           (\<lparr>vd_slug = Some s, vd_title = Some t, vd_description = None, vd_price = Some n,
             vd_categories = None\<rparr>, [])"
proof -
  let ?ser = "new_serializer (ProductCreateSerializer M) i dt p"
  have s: "slug_outcome ?ser d = Good s"
    using assms(1,2) by (simp add: slug_outcome_def run_field_present writable_create)
  have t: "title_outcome ?ser = Good t"
    using assms(3,4) by (simp add: title_outcome_def run_field_present writable_create)
  have n: "price_outcome ?ser = Good n"
    using assms(5,6) by (simp add: price_outcome_def run_field_present writable_create)
  have ds: "description_outcome ?ser = Absent"
    by (simp add: description_outcome_def run_field_unwritable writable_create)
  have c: "categories_outcome ?ser d = Absent"
    by (simp add: categories_outcome_def run_field_unwritable writable_create)
  have e: "snd (run_validation ?ser d) = []"
    by (simp add: errors_create s t n)
  have "fst (run_validation ?ser d) =
      \<lparr>vd_slug = Some s, vd_title = Some t, vd_description = None, vd_price = Some n,
        vd_categories = None\<rparr>"
    by (simp add: run_validation_def s t n ds c)
  then show ?thesis using e by (simp add: prod_eq_iff)
qed





text \<open>The definitions that running a handler on concrete data unfolds.\<close>

lemmas handler_defs =
  product_list_def product_detail_def product_create_def product_update_def
  product_partial_update_def product_delete_def ProductView_get_def ProductView_post_def
  ProductView_put_def ProductView_patch_def ProductView_delete_def

lemmas field_defs =
  CharField_def run_validators_def char_column_field_def slug_field_def title_field_def
  description_field_def unique_validator_def strip_def is_space_def IntegerField_def
  max_value_validator_def min_value_validator_def max_length_validator_def
  prohibit_null_characters_def

lemmas serializer_defs =
  new_serializer_def is_valid_def run_validation_def field_errors_def slug_outcome_def
  title_outcome_def description_outcome_def price_outcome_def categories_outcome_def
  run_field_def writable_def save_def create_def update_def assign_columns_def
  assign_categories_def blank_product_def serializer_data_def serializer_errors_def
  to_representation_def field_repr_def many_data_def CategorySerializer_data_def
  ProductListSerializer_def ProductDetailSerializer_def ProductCreateSerializer_def

lemmas storage_defs =
  Product_objects_all_def get_object_or_404_def slug_taken_def row_ok_def insert_product_def
  update_product_def set_categories_def delete_product_def categories_of_def

lemmas response_defs =
  Response_def HTTP_200_OK_def HTTP_201_CREATED_def HTTP_204_NO_CONTENT_def
  HTTP_400_BAD_REQUEST_def HTTP_404_NOT_FOUND_def HTTP_500_INTERNAL_SERVER_ERROR_def

lemmas example_defs =
  example_model_def example_db_def example_request_def example_duplicate_def
  example_invalid_def example_blank_slug_def empty_db_def example_padded_def example_blank_def padded_db_def padded_request_def

lemma example_fields:
  "slug_field example_model example_db None (JStr ''jam'') = Inr ''jam''"
  "title_field example_model (JStr ''Jam'') = Inr ''Jam''"
  "title_field example_model (JStr '' Jam '') = Inr ''Jam''"
  "title_field example_model (JStr []) = Inl [''This field may not be blank.'']"
  "price_field example_model (JInt 3) = Inr 3"
  "price_repr example_model 3 = JInt 3"
  by (simp_all add: field_defs storage_defs example_defs Let_def)








section \<open>Updating a product through the function-based handler\<close>

lemma find_map_same:
  assumes "\<And>x. P (g x) = P x"
  shows "find P (map g xs) = map_option g (find P xs)"
  by (induction xs) (simp_all add: assms)

lemma assign_columns_id [simp]: "product_id (assign_columns v r) = product_id r"
  by (simp add: assign_columns_def)

lemma update_lookup:
  assumes "get_object_or_404 d pk = Inr obj" and "vd_categories v = None"
      and "update obj v d = Inr (r, d')"
  shows "get_object_or_404 d' k = (if k = pk then Inr r else get_object_or_404 d k)"
proof -
  have r: "r = assign_columns v obj"
    and d': "d' = d\<lparr>product_table :=
                  map (\<lambda>x. if product_id x = product_id r then r else x) (product_table d)\<rparr>"
    using update_Inr[OF assms(2,3)] by simp_all
  have idr: "product_id r = pk"
    using r get_object_or_404_Inr[OF assms(1)] by simp
  have f: "find (\<lambda>x. product_id x = k) (product_table d') =
      map_option (\<lambda>x. if product_id x = pk then r else x) (find (\<lambda>x. product_id x = k) (product_table d))"
    unfolding d' idr by (simp add: find_map_same idr)
  have o: "find (\<lambda>x. product_id x = pk) (product_table d) = Some obj"
    using assms(1) by (simp add: get_object_or_404_def split: option.splits)
  show ?thesis
  proof (cases "k = pk")
    case True
    have "find (\<lambda>x. product_id x = pk) (product_table d') = Some r"
      using f o True get_object_or_404_Inr[OF assms(1)] by simp
    then show ?thesis using True by (simp add: get_object_or_404_def)
  next
    case False
    have "map_option (\<lambda>x. if product_id x = pk then r else x) (find (\<lambda>x. product_id x = k) (product_table d))
        = find (\<lambda>x. product_id x = k) (product_table d)"
    proof (cases "find (\<lambda>x. product_id x = k) (product_table d)")
      case None
      then show ?thesis by simp
    next
      case (Some x)
      then have "product_id x = k" by (auto simp: find_Some_iff)
      then show ?thesis using Some False by simp
    qed
    then show ?thesis using False by (simp add: get_object_or_404_def f)
  qed
qed

lemma write_flow_update_cases:
  assumes "\<not> writable c ''categories''"
  obtains (rejected) "snd (run_validation (new_serializer c (Some obj) dt p) d) \<noteq> []"
      "write_flow c (Some obj) dt p st d =
         (Inr \<lparr>status = 400,
               body = Some (JObj (map (\<lambda>(f, ms). (f, JList (map JStr ms)))
                        (snd (run_validation (new_serializer c (Some obj) dt p) d))))\<rparr>, d)"
    | (refused) e where "write_flow c (Some obj) dt p st d = (Inl e, d)"
    | (saved) v r d' where "run_validation (new_serializer c (Some obj) dt p) d = (v, [])"
        "vd_categories v = None" "update obj v d = Inr (r, d')"
        "write_flow c (Some obj) dt p st d = (Inr (Response (Some (to_representation c d' r)) st), d')"
proof (cases "run_validation (new_serializer c (Some obj) dt p) d")
  case (Pair v errs)
  have v: "vd_categories v = None"
    using run_validation_unwritable_categories[OF assms, of "Some obj" dt p d] Pair by simp
  show ?thesis
  proof (cases "errs = []")
    case False
    then have "snd (run_validation (new_serializer c (Some obj) dt p) d) \<noteq> []"
      using Pair by simp
    then show ?thesis using rejected write_flow_rejected by blast
  next
    case True
    show ?thesis
    proof (cases "update obj v d")
      case (Inl e)
      then have "write_flow c (Some obj) dt p st d = (Inl e, d)"
        using Pair True by (simp add: write_flow_def)
      then show ?thesis by (rule refused)
    next
      case (Inr x)
      obtain r d' where x: "x = (r, d')" by (cases x)
      have "write_flow c (Some obj) dt p st d = (Inr (Response (Some (to_representation c d' r)) st), d')"
        using Pair True Inr x by (simp add: write_flow_def)
      then show ?thesis using saved[of v r d'] Pair True v Inr x by simp
    qed
  qed
qed

lemma write_flow_update_description:
  assumes "\<not> writable c ''categories''" and "\<not> writable c ''description''"
      and "get_object_or_404 d pk = Inr obj"
  shows "map_sum id description (get_object_or_404 (snd (write_flow c (Some obj) dt p st d)) k)
       = map_sum id description (get_object_or_404 d k)"
  using assms(1)
proof (cases rule: write_flow_update_cases[where obj=obj and dt=dt and p=p and d=d and st=st])
  case rejected
  then show ?thesis by simp
next
  case (refused e)
  then show ?thesis by simp
next
  case (saved v r d')
  have "vd_description v = None"
    using run_validation_unwritable_description[OF assms(2), of "Some obj" dt p d] saved(1) by simp
  moreover have "r = assign_columns v obj" using update_Inr[OF saved(2,3)] by simp
  ultimately have "description r = description obj" by (simp add: assign_columns_def)
  then show ?thesis
    using update_lookup[OF assms(3) saved(2,3), of k] assms(3) saved(4) by simp
qed


lemma to_representation_create_keys:
  "\<exists>b. to_representation (ProductCreateSerializer M) d r = JObj b
       \<and> map fst b = [''id'', ''slug'', ''title'', ''price'']"
  by (simp add: to_representation_def ProductCreateSerializer_def)

lemma update_refuses_create_fields:
  assumes "get_object_or_404 d pk = Inr obj"
  shows "(data request ''slug'' = Some x \<and> slug_field M d (Some obj) x = Inl ms \<longrightarrow>
           rejects (product_update M request pk d) d ''slug'' ms)
      \<and> (data request ''title'' = Some x \<and> title_field M x = Inl ms \<longrightarrow>
           rejects (product_update M request pk d) d ''title'' ms)
      \<and> (data request ''price'' = Some x \<and> price_field M x = Inl ms \<longrightarrow>
           rejects (product_update M request pk d) d ''price'' ms)
      \<and> (data request ''slug'' = None \<and> required (slug_column M) \<longrightarrow>
           rejects (product_update M request pk d) d ''slug'' [''This field is required.''])
      \<and> (data request ''title'' = None \<and> required (title_column M) \<longrightarrow>
           rejects (product_update M request pk d) d ''title'' [''This field is required.''])
      \<and> (data request ''price'' = None \<and> price_required M \<longrightarrow>
           rejects (product_update M request pk d) d ''price'' [''This field is required.''])"
  using assms
  by (auto simp add: product_update_flow intro!: rejected_entry
      simp: errors_create slug_outcome_def title_outcome_def price_outcome_def
        run_field_present run_field_missing writable_create)

lemma update_writes_create_fields:
  assumes "get_object_or_404 d pk = Inr obj"
      and "data request ''slug'' = Some xs" and "slug_field M d (Some obj) xs = Inr s"
      and "\<not> slug_taken d s (Some pk)"
      and "data request ''title'' = Some xt" and "title_field M xt = Inr t"
      and "data request ''price'' = Some xp" and "price_field M xp = Inr n"
  shows "product_update M request pk d =
           (Inr \<lparr>status = 200,
                 body = Some (JObj [(''id'', JInt pk), (''slug'', JStr s), (''title'', JStr t),
                                    (''price'', price_repr M n)])\<rparr>,
            d\<lparr>product_table :=
                 map (\<lambda>x. if product_id x = pk then obj\<lparr>slug := s, title := t, price := Some n\<rparr>
                          else x) (product_table d)\<rparr>)"
proof -
  let ?v = "\<lparr>vd_slug = Some s, vd_title = Some t, vd_description = None, vd_price = Some n,
             vd_categories = None\<rparr>"
  let ?r = "obj\<lparr>slug := s, title := t, price := Some n\<rparr>"
  let ?d = "d\<lparr>product_table := map (\<lambda>x. if product_id x = pk then ?r else x) (product_table d)\<rparr>"
  have pk: "product_id obj = pk"
    using get_object_or_404_Inr[OF assms(1)] by simp
  have rv: "run_validation (new_serializer (ProductCreateSerializer M) (Some obj) (data request) False) d
      = (?v, [])"
    by (rule run_validation_create_full[OF assms(2,3,5,6,7,8)])
  have row: "assign_columns ?v obj = ?r"
    by (simp add: assign_columns_def)
  have ok: "row_ok d (assign_columns ?v obj) (Some (product_id (assign_columns ?v obj)))"
    using assms(4) pk by (simp add: row row_ok_def)
  have up: "update obj ?v d = Inr (?r, ?d)"
    using update_ok[of ?v d obj, OF _ ok] pk by (simp add: row)
  have "product_update M request pk d =
      (Inr (Response (Some (to_representation (ProductCreateSerializer M) ?d ?r)) None), ?d)"
    by (simp add: product_update_flow assms(1) write_flow_def rv up)
  then show ?thesis
    using pk
    by (simp add: Response_def HTTP_200_OK_def to_representation_def
        ProductCreateSerializer_def field_repr_def)
qed

text \<open>
  Claim C1. The full update of \<^verbatim>\<open>product/views.py\<close> validates and writes through
  \<^verbatim>\<open>ProductCreateSerializer\<close>, whose fields are id, slug, title and price.

  Description is no part of it: whatever the request holds under \<^verbatim>\<open>description\<close>
  (any value, or nothing at all) the outcome is the same, so a description is neither
  required nor accepted; every stored product, looked up by its id after the update, has
  the description it had before; and the body of a successful update has exactly the
  entries id, slug, title and price.

  Slug, title and price are validated: on a stored id, a value of one of them that its
  serializer field refuses, and a missing value where the column requires one, is answered
  with 400, the field's messages in the body, and an unchanged database.

  Slug, title and price are written: on a stored id, when the three values are accepted
  and the accepted slug belongs to no other row, the answer is 200 with the id and the
  three accepted values, and the stored row has the three accepted values in place of its
  own, its description and every other row being as before.
\<close>

theorem product_update_drops_description:
  "product_update M (request\<lparr>data := (data request)(''description'' := v)\<rparr>) pk d
     = product_update M request pk d
   \<and> map_sum id description (get_object_or_404 (snd (product_update M request pk d)) k)
     = map_sum id description (get_object_or_404 d k)
   \<and> (\<forall>r. fst (product_update M request pk d) = Inr r \<and> status r = 200 \<longrightarrow>
        (\<exists>b. body r = Some (JObj b) \<and> map fst b = [''id'', ''slug'', ''title'', ''price'']))
   \<and> (get_object_or_404 d pk = Inr obj \<longrightarrow>
        (data request ''slug'' = Some x \<and> slug_field M d (Some obj) x = Inl ms \<longrightarrow>
           rejects (product_update M request pk d) d ''slug'' ms)
      \<and> (data request ''title'' = Some x \<and> title_field M x = Inl ms \<longrightarrow>
           rejects (product_update M request pk d) d ''title'' ms)
      \<and> (data request ''price'' = Some x \<and> price_field M x = Inl ms \<longrightarrow>
           rejects (product_update M request pk d) d ''price'' ms)
      \<and> (data request ''slug'' = None \<and> required (slug_column M) \<longrightarrow>
           rejects (product_update M request pk d) d ''slug'' [''This field is required.''])
      \<and> (data request ''title'' = None \<and> required (title_column M) \<longrightarrow>
           rejects (product_update M request pk d) d ''title'' [''This field is required.''])
      \<and> (data request ''price'' = None \<and> price_required M \<longrightarrow>
           rejects (product_update M request pk d) d ''price'' [''This field is required.''])
      \<and> (data request ''slug'' = Some xs \<and> slug_field M d (Some obj) xs = Inr s
           \<and> \<not> slug_taken d s (Some pk)
           \<and> data request ''title'' = Some xt \<and> title_field M xt = Inr t
           \<and> data request ''price'' = Some xp \<and> price_field M xp = Inr n \<longrightarrow>
           product_update M request pk d =
             (Inr \<lparr>status = 200,
                   body = Some (JObj [(''id'', JInt pk), (''slug'', JStr s), (''title'', JStr t),
                                      (''price'', price_repr M n)])\<rparr>,
              d\<lparr>product_table :=
                   map (\<lambda>x. if product_id x = pk then obj\<lparr>slug := s, title := t, price := Some n\<rparr>
                            else x) (product_table d)\<rparr>)))"
proof -
  have 1: "product_update M (request\<lparr>data := (data request)(''description'' := v)\<rparr>) pk d
     = product_update M request pk d"
    by (simp add: product_update_flow write_flow_frame writable_create split: sum.splits)
  have 2: "map_sum id description (get_object_or_404 (snd (product_update M request pk d)) k)
     = map_sum id description (get_object_or_404 d k)"
  proof (cases "get_object_or_404 d pk")
    case (Inl e)
    then show ?thesis by (simp add: product_update_flow)
  next
    case (Inr o')
    then show ?thesis
      using write_flow_update_description[of "ProductCreateSerializer M" d pk o' "data request" False None k]
      by (simp add: product_update_flow writable_create)
  qed
  have 3: "\<exists>b. body r = Some (JObj b) \<and> map fst b = [''id'', ''slug'', ''title'', ''price'']"
    if h: "fst (product_update M request pk d) = Inr r \<and> status r = 200" for r
  proof (cases "get_object_or_404 d pk")
    case (Inl e)
    then show ?thesis using h by (simp add: product_update_flow)
  next
    case (Inr o')
    show ?thesis
      using not_writable_categories_create[of M]
    proof (cases rule: write_flow_update_cases[where obj=o' and dt="data request" and p=False
          and d=d and st=None])
      case rejected
      then show ?thesis using h Inr by (auto simp: product_update_flow)
    next
      case (refused e)
      then show ?thesis using h Inr by (simp add: product_update_flow)
    next
      case (saved v' r' d')
      then have "r = Response (Some (to_representation (ProductCreateSerializer M) d' r')) None"
        using h Inr by (simp add: product_update_flow)
      then show ?thesis
        using to_representation_create_keys[of M d' r'] by (auto simp: Response_def)
    qed
  qed
  have 4: "data request ''slug'' = Some xs \<and> slug_field M d (Some obj) xs = Inr s
           \<and> \<not> slug_taken d s (Some pk)
           \<and> data request ''title'' = Some xt \<and> title_field M xt = Inr t
           \<and> data request ''price'' = Some xp \<and> price_field M xp = Inr n \<longrightarrow>
           product_update M request pk d =
             (Inr \<lparr>status = 200,
                   body = Some (JObj [(''id'', JInt pk), (''slug'', JStr s), (''title'', JStr t),
                                      (''price'', price_repr M n)])\<rparr>,
              d\<lparr>product_table :=
                   map (\<lambda>x. if product_id x = pk then obj\<lparr>slug := s, title := t, price := Some n\<rparr>
                            else x) (product_table d)\<rparr>)"
    if "get_object_or_404 d pk = Inr obj"
    using update_writes_create_fields[OF that, of request] by blast
  have 5: "get_object_or_404 d pk = Inr obj \<longrightarrow>
        (data request ''slug'' = Some x \<and> slug_field M d (Some obj) x = Inl ms \<longrightarrow>
           rejects (product_update M request pk d) d ''slug'' ms)
      \<and> (data request ''title'' = Some x \<and> title_field M x = Inl ms \<longrightarrow>
           rejects (product_update M request pk d) d ''title'' ms)
      \<and> (data request ''price'' = Some x \<and> price_field M x = Inl ms \<longrightarrow>
           rejects (product_update M request pk d) d ''price'' ms)
      \<and> (data request ''slug'' = None \<and> required (slug_column M) \<longrightarrow>
           rejects (product_update M request pk d) d ''slug'' [''This field is required.''])
      \<and> (data request ''title'' = None \<and> required (title_column M) \<longrightarrow>
           rejects (product_update M request pk d) d ''title'' [''This field is required.''])
      \<and> (data request ''price'' = None \<and> price_required M \<longrightarrow>
           rejects (product_update M request pk d) d ''price'' [''This field is required.''])"
  proof
    assume g: "get_object_or_404 d pk = Inr obj"
    show "(data request ''slug'' = Some x \<and> slug_field M d (Some obj) x = Inl ms \<longrightarrow>
           rejects (product_update M request pk d) d ''slug'' ms)
      \<and> (data request ''title'' = Some x \<and> title_field M x = Inl ms \<longrightarrow>
           rejects (product_update M request pk d) d ''title'' ms)
      \<and> (data request ''price'' = Some x \<and> price_field M x = Inl ms \<longrightarrow>
           rejects (product_update M request pk d) d ''price'' ms)
      \<and> (data request ''slug'' = None \<and> required (slug_column M) \<longrightarrow>
           rejects (product_update M request pk d) d ''slug'' [''This field is required.''])
      \<and> (data request ''title'' = None \<and> required (title_column M) \<longrightarrow>
           rejects (product_update M request pk d) d ''title'' [''This field is required.''])
      \<and> (data request ''price'' = None \<and> price_required M \<longrightarrow>
           rejects (product_update M request pk d) d ''price'' [''This field is required.''])"
      by (rule update_refuses_create_fields[OF g])
  qed
  show ?thesis
    using 1 2 3 4 5 by blast
qed


lemma example_update:
  "product_update example_model example_request 1 example_db =
     (Inr \<lparr>status = 200,
           body = Some (JObj [(''id'', JInt 1), (''slug'', JStr ''jam''), (''title'', JStr ''Jam''),
                              (''price'', JInt 3)])\<rparr>,
      example_db\<lparr>product_table :=
        [\<lparr>product_id = 1, slug = ''jam'', title = ''Jam'', description = ''Green tea'', price = Some 3\<rparr>,
         \<lparr>product_id = 2, slug = ''mug'', title = ''Mug'', description = ''A mug'', price = Some 7\<rparr>]\<rparr>)"
  by (simp add: handler_defs serializer_defs field_defs storage_defs response_defs example_defs
      Let_def)

lemma example_update_fields:
  "get_object_or_404 example_db 1 =
     Inr \<lparr>product_id = 1, slug = ''tea'', title = ''Tea'', description = ''Green tea'', price = Some 5\<rparr>"
  "slug_field example_model example_db
     (Some \<lparr>product_id = 1, slug = ''tea'', title = ''Tea'', description = ''Green tea'', price = Some 5\<rparr>)
     (JStr ''jam'') = Inr ''jam''"
  "slug_field example_model example_db
     (Some \<lparr>product_id = 1, slug = ''tea'', title = ''Tea'', description = ''Green tea'', price = Some 5\<rparr>)
     (JStr ''mug'') = Inl [''product with this slug already exists.'']"
  "title_field example_model JNull = Inl [''This field may not be null.'']"
  "\<not> slug_taken example_db ''jam'' (Some 1)"
  "price_required example_model"
  by (simp_all add: field_defs storage_defs example_defs Let_def)

theorem product_update_drops_description_witness:
  "get_object_or_404 example_db 1 =
     Inr \<lparr>product_id = 1, slug = ''tea'', title = ''Tea'', description = ''Green tea'', price = Some 5\<rparr>
   \<and> product_update example_model
        (example_request\<lparr>data := (data example_request)(''description'' := None)\<rparr>) 1 example_db
      = product_update example_model example_request 1 example_db
   \<and> map_sum id description
        (get_object_or_404 (snd (product_update example_model example_request 1 example_db)) 1)
      = Inr ''Green tea''
   \<and> data example_request ''slug'' = Some (JStr ''jam'')
   \<and> slug_field example_model example_db
        (Some \<lparr>product_id = 1, slug = ''tea'', title = ''Tea'', description = ''Green tea'', price = Some 5\<rparr>)
        (JStr ''jam'') = Inr ''jam''
   \<and> \<not> slug_taken example_db ''jam'' (Some 1)
   \<and> data example_request ''title'' = Some (JStr ''Jam'')
   \<and> title_field example_model (JStr ''Jam'') = Inr ''Jam''
   \<and> data example_request ''price'' = Some (JInt 3)
   \<and> price_field example_model (JInt 3) = Inr 3
   \<and> product_update example_model example_request 1 example_db =
       (Inr \<lparr>status = 200,
             body = Some (JObj [(''id'', JInt 1), (''slug'', JStr ''jam''), (''title'', JStr ''Jam''),
                                (''price'', JInt 3)])\<rparr>,
        example_db\<lparr>product_table :=
          [\<lparr>product_id = 1, slug = ''jam'', title = ''Jam'', description = ''Green tea'', price = Some 3\<rparr>,
           \<lparr>product_id = 2, slug = ''mug'', title = ''Mug'', description = ''A mug'', price = Some 7\<rparr>]\<rparr>)
   \<and> data example_invalid ''slug'' = Some (JStr ''mug'')
   \<and> slug_field example_model example_db
        (Some \<lparr>product_id = 1, slug = ''tea'', title = ''Tea'', description = ''Green tea'', price = Some 5\<rparr>)
        (JStr ''mug'') = Inl [''product with this slug already exists.'']
   \<and> rejects (product_update example_model example_invalid 1 example_db) example_db ''slug''
        [''product with this slug already exists.'']
   \<and> data example_invalid ''title'' = Some JNull
   \<and> title_field example_model JNull = Inl [''This field may not be null.'']
   \<and> rejects (product_update example_model example_invalid 1 example_db) example_db ''title''
        [''This field may not be null.'']
   \<and> data example_invalid ''price'' = None \<and> price_required example_model
   \<and> rejects (product_update example_model example_invalid 1 example_db) example_db ''price''
        [''This field is required.'']"
proof -
  let ?tea = "\<lparr>product_id = 1, slug = ''tea'', title = ''Tea'', description = ''Green tea'',
               price = Some 5\<rparr>"
  have q: "data example_request ''slug'' = Some (JStr ''jam'')"
    "data example_request ''title'' = Some (JStr ''Jam'')"
    "data example_request ''price'' = Some (JInt 3)"
    "data example_invalid ''slug'' = Some (JStr ''mug'')"
    "data example_invalid ''title'' = Some JNull"
    "data example_invalid ''price'' = None"
    by (simp_all add: example_request_def example_invalid_def)
  have t: "example_db\<lparr>product_table :=
             map (\<lambda>x. if product_id x = 1 then ?tea\<lparr>slug := ''jam'', title := ''Jam'', price := Some 3\<rparr>
                      else x) (product_table example_db)\<rparr>
         = example_db\<lparr>product_table :=
          [\<lparr>product_id = 1, slug = ''jam'', title = ''Jam'', description = ''Green tea'', price = Some 3\<rparr>,
           \<lparr>product_id = 2, slug = ''mug'', title = ''Mug'', description = ''A mug'', price = Some 7\<rparr>]\<rparr>"
    by (simp add: example_db_def)
  have a: "map_sum id description (get_object_or_404 example_db 1) = Inr ''Green tea''"
    by (simp add: example_update_fields(1))
  have b: "map_sum id description (get_object_or_404 (example_db\<lparr>product_table :=
          [\<lparr>product_id = 1, slug = ''jam'', title = ''Jam'', description = ''Green tea'', price = Some 3\<rparr>,
           \<lparr>product_id = 2, slug = ''mug'', title = ''Mug'', description = ''A mug'', price = Some 7\<rparr>]\<rparr>) 1)
        = Inr ''Green tea''"
    by (simp add: get_object_or_404_def)
  show ?thesis
    using product_update_drops_description[where M=example_model and request=example_request
        and v=None and pk=1 and d=example_db and k=1 and obj="?tea" and xs="JStr ''jam''"
        and s="''jam''" and xt="JStr ''Jam''" and t="''Jam''" and xp="JInt 3" and n=3
        and x=JNull and ms="[]"]
      product_update_drops_description[where M=example_model and request=example_invalid
        and v=None and pk=1 and d=example_db and k=1 and obj="?tea" and xs="JStr ''jam''"
        and s="''jam''" and xt="JStr ''Jam''" and t="''Jam''" and xp="JInt 3" and n=3
        and x="JStr ''mug''" and ms="[''product with this slug already exists.'']"]
      product_update_drops_description[where M=example_model and request=example_invalid
        and v=None and pk=1 and d=example_db and k=1 and obj="?tea" and xs="JStr ''jam''"
        and s="''jam''" and xt="JStr ''Jam''" and t="''Jam''" and xp="JInt 3" and n=3
        and x="JNull" and ms="[''This field may not be null.'']"]
      q t a b example_update_fields example_fields
    by simp
qed


section \<open>A request that fails validation\<close>

lemma error_of_run_field:
  assumes "(g, ms) \<in> set (error_of f (run_field ser f req field))"
  shows "g = f \<and> writable (cls ser) f
       \<and> (ms = [''This field is required.''] \<or> (\<exists>x. field x = Inl ms))"
  using assms
  by (auto simp: run_field_def split: if_splits option.splits sum.splits)

lemma CharField_messages: "CharField b vs x = Inl ms \<Longrightarrow> ms \<noteq> []"
  by (auto simp: CharField_def run_validators_def Let_def split: option.splits if_splits)

lemma to_pks_messages: "to_pks d x = Inl ms \<Longrightarrow> ms \<noteq> []"
  by (cases x) (auto split: if_splits)

lemma field_errors_entries:
  assumes "(g, ms) \<in> set (field_errors ser d f)"
  shows "g = f \<and> writable (cls ser) g \<and> (g \<noteq> ''price'' \<longrightarrow> ms \<noteq> [])"
proof -
  from assms consider
      (slug) "f = ''slug''" "(g, ms) \<in> set (error_of f (slug_outcome ser d))"
    | (title) "f = ''title''" "(g, ms) \<in> set (error_of f (title_outcome ser))"
    | (description) "f = ''description''" "(g, ms) \<in> set (error_of f (description_outcome ser))"
    | (price) "f = ''price''" "(g, ms) \<in> set (error_of f (price_outcome ser))"
    | (categories) "f = ''categories''" "(g, ms) \<in> set (error_of f (categories_outcome ser d))"
    by (auto simp: field_errors_def split: if_splits)
  then show ?thesis
  proof cases
    case slug
    then show ?thesis
      unfolding slug_outcome_def slug_field_def char_column_field_def
      using error_of_run_field CharField_messages by fastforce
  next
    case title
    then show ?thesis
      unfolding title_outcome_def title_field_def char_column_field_def
      using error_of_run_field CharField_messages by fastforce
  next
    case description
    then show ?thesis
      unfolding description_outcome_def description_field_def char_column_field_def
      using error_of_run_field CharField_messages by fastforce
  next
    case price
    then show ?thesis
      unfolding price_outcome_def using error_of_run_field by fastforce
  next
    case categories
    then show ?thesis
      unfolding categories_outcome_def using error_of_run_field to_pks_messages by fastforce
  qed
qed

lemma run_validation_errors:
  assumes "(g, ms) \<in> set (snd (run_validation ser d))"
  shows "writable (cls ser) g \<and> (g \<noteq> ''price'' \<longrightarrow> ms \<noteq> [])"
  using assms field_errors_entries by (fastforce simp: run_validation_def)

lemma is_valid_fst: "fst (is_valid ser d) = (snd (run_validation ser d) = [])"
  by (cases "run_validation ser d") (simp add: is_valid_def)

lemma is_valid_errors:
  "errors (snd (is_valid ser d)) =
     (if fst (is_valid ser d) then [] else snd (run_validation ser d))"
  by (cases "run_validation ser d") (simp add: is_valid_def)

lemma is_valid_cls: "cls (snd (is_valid ser d)) = cls ser"
  by (cases "run_validation ser d") (simp add: is_valid_def)

lemma rejected_errors:
  assumes "\<not> fst (is_valid ser d)"
  shows "errors (snd (is_valid ser d)) \<noteq> []
       \<and> list_all (\<lambda>(f, ms). writable (cls ser) f \<and> (f \<noteq> ''price'' \<longrightarrow> ms \<noteq> []))
           (errors (snd (is_valid ser d)))"
  using assms run_validation_errors[of _ _ ser d]
  by (auto simp: is_valid_errors is_valid_fst list_all_iff)

lemma rejected_handler:
  assumes "\<not> fst (is_valid s d)"
  shows "(let (ok, serializer) = is_valid s d
          in if ok then A serializer
             else (Inr (Response (Some (serializer_errors serializer)) (Some HTTP_400_BAD_REQUEST)), d))
       = (Inr \<lparr>status = 400, body = Some (serializer_errors (snd (is_valid s d)))\<rparr>, d)"
  using assms by (cases "is_valid s d") (simp add: Response_def HTTP_400_BAD_REQUEST_def)

text \<open>
  Claim C10. In each of the six writing handlers (create, full update and partial update,
  function-based and class-based), when \<^verbatim>\<open>is_valid()\<close> answers false the response is
  400, its body is the serializer's mapping from field names to error messages, and the
  database is the one the request found: nothing is saved. For create this holds on every
  database; for the handlers that take an id, on every database that holds a product with
  that id (on another they raise \<^verbatim>\<open>Http404\<close> before any validation). The mapping is
  not empty and each of its keys is a writable field of the serializer; a key other than
  price (whose field belongs to the absent declaration) has at least one message.
\<close>

theorem validation_failure_is_atomic:
  "(\<not> fst (is_valid (new_serializer (ProductCreateSerializer M) None (data request) False) d) \<longrightarrow>
      product_create M request d =
        (Inr \<lparr>status = 400, body = Some (serializer_errors (snd (is_valid
           (new_serializer (ProductCreateSerializer M) None (data request) False) d)))\<rparr>, d)
      \<and> ProductView_post M request d = product_create M request d)
   \<and> (get_object_or_404 d pk = Inr obj
        \<and> \<not> fst (is_valid (new_serializer (ProductCreateSerializer M) (Some obj) (data request) False) d) \<longrightarrow>
      product_update M request pk d =
        (Inr \<lparr>status = 400, body = Some (serializer_errors (snd (is_valid
           (new_serializer (ProductCreateSerializer M) (Some obj) (data request) False) d)))\<rparr>, d))
   \<and> (get_object_or_404 d pk = Inr obj
        \<and> \<not> fst (is_valid (new_serializer (ProductCreateSerializer M) (Some obj) (data request) True) d) \<longrightarrow>
      product_partial_update M request pk d =
        (Inr \<lparr>status = 400, body = Some (serializer_errors (snd (is_valid
           (new_serializer (ProductCreateSerializer M) (Some obj) (data request) True) d)))\<rparr>, d))
   \<and> (get_object_or_404 d pk = Inr obj
        \<and> \<not> fst (is_valid (new_serializer (ProductDetailSerializer M) (Some obj) (data request) False) d) \<longrightarrow>
      ProductView_put M request pk d =
        (Inr \<lparr>status = 400, body = Some (serializer_errors (snd (is_valid
           (new_serializer (ProductDetailSerializer M) (Some obj) (data request) False) d)))\<rparr>, d))
   \<and> (get_object_or_404 d pk = Inr obj
        \<and> \<not> fst (is_valid (new_serializer (ProductDetailSerializer M) (Some obj) (data request) True) d) \<longrightarrow>
      ProductView_patch M request pk d =
        (Inr \<lparr>status = 400, body = Some (serializer_errors (snd (is_valid
           (new_serializer (ProductDetailSerializer M) (Some obj) (data request) True) d)))\<rparr>, d))
   \<and> (\<not> fst (is_valid ser d) \<longrightarrow>
        errors (snd (is_valid ser d)) \<noteq> []
        \<and> list_all (\<lambda>(f, ms). writable (cls ser) f \<and> (f \<noteq> ''price'' \<longrightarrow> ms \<noteq> []))
            (errors (snd (is_valid ser d))))"
proof -
  have 1: "product_create M request d =
          (Inr \<lparr>status = 400, body = Some (serializer_errors (snd (is_valid
             (new_serializer (ProductCreateSerializer M) None (data request) False) d)))\<rparr>, d)"
    if "\<not> fst (is_valid (new_serializer (ProductCreateSerializer M) None (data request) False) d)"
    unfolding product_create_def by (rule rejected_handler[OF that])
  have 6: "ProductView_post M request d = product_create M request d"
    by (simp add: product_create_flow ProductView_post_flow)
  have 2: "product_update M request pk d =
          (Inr \<lparr>status = 400, body = Some (serializer_errors (snd (is_valid
             (new_serializer (ProductCreateSerializer M) (Some obj) (data request) False) d)))\<rparr>, d)"
    if "get_object_or_404 d pk = Inr obj"
      "\<not> fst (is_valid (new_serializer (ProductCreateSerializer M) (Some obj) (data request) False) d)"
    unfolding product_update_def using rejected_handler[OF that(2)] by (simp add: that(1))
  have 3: "product_partial_update M request pk d =
          (Inr \<lparr>status = 400, body = Some (serializer_errors (snd (is_valid
             (new_serializer (ProductCreateSerializer M) (Some obj) (data request) True) d)))\<rparr>, d)"
    if "get_object_or_404 d pk = Inr obj"
      "\<not> fst (is_valid (new_serializer (ProductCreateSerializer M) (Some obj) (data request) True) d)"
    unfolding product_partial_update_def using rejected_handler[OF that(2)] by (simp add: that(1))
  have 4: "ProductView_put M request pk d =
          (Inr \<lparr>status = 400, body = Some (serializer_errors (snd (is_valid
             (new_serializer (ProductDetailSerializer M) (Some obj) (data request) False) d)))\<rparr>, d)"
    if "get_object_or_404 d pk = Inr obj"
      "\<not> fst (is_valid (new_serializer (ProductDetailSerializer M) (Some obj) (data request) False) d)"
    unfolding ProductView_put_def using rejected_handler[OF that(2)] by (simp add: that(1))
  have 5: "ProductView_patch M request pk d =
          (Inr \<lparr>status = 400, body = Some (serializer_errors (snd (is_valid
             (new_serializer (ProductDetailSerializer M) (Some obj) (data request) True) d)))\<rparr>, d)"
    if "get_object_or_404 d pk = Inr obj"
      "\<not> fst (is_valid (new_serializer (ProductDetailSerializer M) (Some obj) (data request) True) d)"
    unfolding ProductView_patch_def using rejected_handler[OF that(2)] by (simp add: that(1))
  show ?thesis using 1 6 2 3 4 5 rejected_errors[of ser d] by blast
qed


theorem validation_failure_is_atomic_witness:
  "get_object_or_404 example_db 2 = Inr \<lparr>product_id = 2, slug = ''mug'', title = ''Mug'', description = ''A mug'', price = Some 7\<rparr>
   \<and> \<not> fst (is_valid (new_serializer (ProductCreateSerializer example_model) None (data example_invalid) False) example_db)
   \<and> product_create example_model example_invalid example_db =
       (Inr \<lparr>status = 400, body = Some (JObj [(''slug'', JList [JStr ''product with this slug already exists.'']), (''title'', JList [JStr ''This field may not be null.'']), (''price'', JList [JStr ''This field is required.''])])\<rparr>, example_db)
   \<and> ProductView_post example_model example_invalid example_db =
       (Inr \<lparr>status = 400, body = Some (JObj [(''slug'', JList [JStr ''product with this slug already exists.'']), (''title'', JList [JStr ''This field may not be null.'']), (''price'', JList [JStr ''This field is required.''])])\<rparr>, example_db)
   \<and> \<not> fst (is_valid (new_serializer (ProductCreateSerializer example_model) None (data example_invalid) False) empty_db)
   \<and> product_create example_model example_invalid empty_db =
       (Inr \<lparr>status = 400, body = Some (JObj [(''title'', JList [JStr ''This field may not be null.'']), (''price'', JList [JStr ''This field is required.''])])\<rparr>, empty_db)
   \<and> ProductView_post example_model example_invalid empty_db =
       (Inr \<lparr>status = 400, body = Some (JObj [(''title'', JList [JStr ''This field may not be null.'']), (''price'', JList [JStr ''This field is required.''])])\<rparr>, empty_db)
   \<and> \<not> fst (is_valid (new_serializer (ProductCreateSerializer example_model) (Some \<lparr>product_id = 2, slug = ''mug'', title = ''Mug'', description = ''A mug'', price = Some 7\<rparr>) (data example_invalid) False) example_db)
   \<and> product_update example_model example_invalid 2 example_db =
       (Inr \<lparr>status = 400, body = Some (JObj [(''title'', JList [JStr ''This field may not be null.'']), (''price'', JList [JStr ''This field is required.''])])\<rparr>, example_db)
   \<and> \<not> fst (is_valid (new_serializer (ProductCreateSerializer example_model) (Some \<lparr>product_id = 2, slug = ''mug'', title = ''Mug'', description = ''A mug'', price = Some 7\<rparr>) (data example_invalid) True) example_db)
   \<and> product_partial_update example_model example_invalid 2 example_db =
       (Inr \<lparr>status = 400, body = Some (JObj [(''title'', JList [JStr ''This field may not be null.''])])\<rparr>, example_db)
   \<and> \<not> fst (is_valid (new_serializer (ProductDetailSerializer example_model) (Some \<lparr>product_id = 2, slug = ''mug'', title = ''Mug'', description = ''A mug'', price = Some 7\<rparr>) (data example_invalid) False) example_db)
   \<and> ProductView_put example_model example_invalid 2 example_db =
       (Inr \<lparr>status = 400, body = Some (JObj [(''title'', JList [JStr ''This field may not be null.'']), (''price'', JList [JStr ''This field is required.''])])\<rparr>, example_db)
   \<and> \<not> fst (is_valid (new_serializer (ProductDetailSerializer example_model) (Some \<lparr>product_id = 2, slug = ''mug'', title = ''Mug'', description = ''A mug'', price = Some 7\<rparr>) (data example_invalid) True) example_db)
   \<and> ProductView_patch example_model example_invalid 2 example_db =
       (Inr \<lparr>status = 400, body = Some (JObj [(''title'', JList [JStr ''This field may not be null.''])])\<rparr>, example_db)
   \<and> errors (snd (is_valid (new_serializer (ProductCreateSerializer example_model) None (data example_invalid) False)
        example_db)) \<noteq> []"
proof -
  let ?mug = "\<lparr>product_id = 2, slug = ''mug'', title = ''Mug'', description = ''A mug'', price = Some 7\<rparr>"
  have g: "get_object_or_404 example_db 2 = Inr ?mug"
    by (simp add: get_object_or_404_def example_db_def)
  have a: "\<not> fst (is_valid (new_serializer (ProductCreateSerializer example_model) None (data example_invalid) False) example_db)"
    "serializer_errors (snd (is_valid (new_serializer (ProductCreateSerializer example_model) None (data example_invalid) False) example_db))
       = JObj [(''slug'', JList [JStr ''product with this slug already exists.'']), (''title'', JList [JStr ''This field may not be null.'']), (''price'', JList [JStr ''This field is required.''])]"
    by (simp_all add: serializer_defs field_defs storage_defs example_defs Let_def)
  have a0: "\<not> fst (is_valid (new_serializer (ProductCreateSerializer example_model) None (data example_invalid) False) empty_db)"
    "serializer_errors (snd (is_valid (new_serializer (ProductCreateSerializer example_model) None (data example_invalid) False) empty_db))
       = JObj [(''title'', JList [JStr ''This field may not be null.'']), (''price'', JList [JStr ''This field is required.''])]"
    by (simp_all add: serializer_defs field_defs storage_defs example_defs Let_def)
  have b: "\<not> fst (is_valid (new_serializer (ProductCreateSerializer example_model) (Some ?mug) (data example_invalid) False) example_db)"
    "serializer_errors (snd (is_valid (new_serializer (ProductCreateSerializer example_model) (Some ?mug) (data example_invalid) False) example_db))
       = JObj [(''title'', JList [JStr ''This field may not be null.'']), (''price'', JList [JStr ''This field is required.''])]"
    by (simp_all add: serializer_defs field_defs storage_defs example_defs Let_def)
  have c: "\<not> fst (is_valid (new_serializer (ProductCreateSerializer example_model) (Some ?mug) (data example_invalid) True) example_db)"
    "serializer_errors (snd (is_valid (new_serializer (ProductCreateSerializer example_model) (Some ?mug) (data example_invalid) True) example_db))
       = JObj [(''title'', JList [JStr ''This field may not be null.''])]"
    by (simp_all add: serializer_defs field_defs storage_defs example_defs Let_def)
  have d: "\<not> fst (is_valid (new_serializer (ProductDetailSerializer example_model) (Some ?mug) (data example_invalid) False) example_db)"
    "serializer_errors (snd (is_valid (new_serializer (ProductDetailSerializer example_model) (Some ?mug) (data example_invalid) False) example_db))
       = JObj [(''title'', JList [JStr ''This field may not be null.'']), (''price'', JList [JStr ''This field is required.''])]"
    by (simp_all add: serializer_defs field_defs storage_defs example_defs Let_def)
  have e: "\<not> fst (is_valid (new_serializer (ProductDetailSerializer example_model) (Some ?mug) (data example_invalid) True) example_db)"
    "serializer_errors (snd (is_valid (new_serializer (ProductDetailSerializer example_model) (Some ?mug) (data example_invalid) True) example_db))
       = JObj [(''title'', JList [JStr ''This field may not be null.''])]"
    by (simp_all add: serializer_defs field_defs storage_defs example_defs Let_def)
  show ?thesis
    using validation_failure_is_atomic[where M=example_model and request=example_invalid
        and d=example_db and pk=2 and obj="?mug"
        and ser="new_serializer (ProductCreateSerializer example_model) None (data example_invalid) False"]
      validation_failure_is_atomic[where M=example_model and request=example_invalid
        and d=empty_db and pk=2 and obj="?mug"
        and ser="new_serializer (ProductCreateSerializer example_model) None (data example_invalid) False"]
      g a a0 b c d e
    by simp
qed


section \<open>Deleting and missing ids\<close>

lemma delete_product_ids: "ids (delete_product obj d) = ids d - {product_id obj}"
  by (auto simp: ids_def delete_product_def)

lemma delete_product_seq: "product_seq (delete_product obj d) = product_seq d"
  by (simp add: delete_product_def)

lemma delete_product_seq_ok: "seq_ok d \<Longrightarrow> seq_ok (delete_product obj d)"
  by (auto simp: seq_ok_def delete_product_def list_all_iff)

lemma missing_handlers:
  assumes "pk \<notin> ids d"
  shows "product_detail M request pk d = (Inl Http404, d)"
    and "product_update M request pk d = (Inl Http404, d)"
    and "product_partial_update M request pk d = (Inl Http404, d)"
    and "product_delete M request pk d = (Inl Http404, d)"
    and "ProductView_get M request (Some pk) d = (Inl Http404, d)"
    and "ProductView_put M request pk d = (Inl Http404, d)"
    and "ProductView_patch M request pk d = (Inl Http404, d)"
    and "ProductView_delete M request pk d = (Inl Http404, d)"
  using get_object_or_404_missing[OF assms]
  by (simp_all add: product_detail_def product_update_def product_partial_update_def
      product_delete_def ProductView_get_def ProductView_put_def ProductView_patch_def
      ProductView_delete_def)

text \<open>
  Every request keeps the stored ids within what the sequence handed out, never moves the
  sequence back, and adds no id at or below the sequence: an id that is gone stays gone.
\<close>

lemma write_flow_ids:
  assumes "\<not> writable c ''categories''" and "seq_ok d"
  shows "seq_ok (snd (write_flow c i dt p st d))
       \<and> product_seq d \<le> product_seq (snd (write_flow c i dt p st d))
       \<and> ids (snd (write_flow c i dt p st d)) \<subseteq> ids d \<union> {k. product_seq d < k}"
proof (cases "run_validation (new_serializer c i dt p) d")
  case (Pair v errs)
  have v: "vd_categories v = None"
    using run_validation_unwritable_categories[OF assms(1), of i dt p d] Pair by simp
  define res where "res = (case i of None \<Rightarrow> create (meta_model c) v d | Some obj \<Rightarrow> update obj v d)"
  have wf: "snd (write_flow c i dt p st d) =
      (if errs = [] then (case res of Inl e \<Rightarrow> d | Inr (r, d') \<Rightarrow> d') else d)"
    by (simp add: write_flow_def Pair res_def split: sum.splits)
  show ?thesis
  proof (cases res)
    case (Inl e)
    then show ?thesis using assms(2) by (simp add: wf)
  next
    case (Inr x)
    obtain r d' where x: "x = (r, d')" by (cases x)
    have "seq_ok d' \<and> product_seq d \<le> product_seq d' \<and> ids d' \<subseteq> ids d \<union> {k. product_seq d < k}"
    proof (cases i)
      case None
      then have "create (meta_model c) v d = Inr (r, d')" using Inr x by (simp add: res_def)
      then have r: "r = (assign_columns v (blank_product (meta_model c)))\<lparr>product_id := product_seq d + 1\<rparr>"
        and d': "d' = d\<lparr>product_table := product_table d @ [r], product_seq := product_seq d + 1\<rparr>"
        using create_Inr[OF v] by simp_all
      have "product_id r = product_seq d + 1" using r by simp
      then show ?thesis
        using assms(2) unfolding d' by (auto simp: seq_ok_def ids_def list_all_iff)
    next
      case (Some obj)
      then have "update obj v d = Inr (r, d')" using Inr x by (simp add: res_def)
      then have d': "d' = d\<lparr>product_table :=
                  map (\<lambda>x. if product_id x = product_id r then r else x) (product_table d)\<rparr>"
        using update_Inr[OF v] by simp
      have "map product_id (product_table d') = map product_id (product_table d)"
        unfolding d' by simp
      then have "ids d' = ids d"
        unfolding ids_def by (metis set_map)
      moreover have "seq_ok d'"
        using assms(2) unfolding d' by (auto simp: seq_ok_def list_all_iff)
      moreover have "product_seq d' = product_seq d" unfolding d' by simp
      ultimately show ?thesis by auto
    qed
    then show ?thesis using assms(2) by (simp add: wf Inr x)
  qed
qed

lemma by_id_ids:
  assumes "\<not> writable c ''categories''" and "seq_ok d"
  shows "seq_ok (snd (case get_object_or_404 d pk of Inl e \<Rightarrow> (Inl e, d)
                        | Inr obj \<Rightarrow> write_flow c (Some obj) dt p st d))
       \<and> product_seq d \<le> product_seq (snd (case get_object_or_404 d pk of Inl e \<Rightarrow> (Inl e, d)
                        | Inr obj \<Rightarrow> write_flow c (Some obj) dt p st d))
       \<and> ids (snd (case get_object_or_404 d pk of Inl e \<Rightarrow> (Inl e, d)
                        | Inr obj \<Rightarrow> write_flow c (Some obj) dt p st d)) \<subseteq> ids d \<union> {k. product_seq d < k}"
proof (cases "get_object_or_404 d pk")
  case (Inl e)
  then show ?thesis using assms(2) by simp
next
  case (Inr obj)
  then show ?thesis using write_flow_ids[OF assms, of "Some obj" dt p st] by simp
qed

lemma delete_ids:
  assumes "seq_ok d"
  shows "seq_ok (snd (product_delete M q pk d))
       \<and> product_seq d \<le> product_seq (snd (product_delete M q pk d))
       \<and> ids (snd (product_delete M q pk d)) \<subseteq> ids d \<union> {k. product_seq d < k}"
proof (cases "get_object_or_404 d pk")
  case (Inl e)
  then show ?thesis using assms by (simp add: product_delete_def)
next
  case (Inr obj)
  then show ?thesis
    using assms delete_product_seq_ok[OF assms, of obj]
    by (auto simp: product_delete_def delete_product_ids delete_product_seq)
qed

lemma handle_ids:
  assumes "seq_ok d"
  shows "seq_ok (snd (handle M c q d))
       \<and> product_seq d \<le> product_seq (snd (handle M c q d))
       \<and> ids (snd (handle M c q d)) \<subseteq> ids d \<union> {k. product_seq d < k}"
proof (cases c)
  case Call_product_list
  then show ?thesis using assms by (simp add: product_list_def)
next
  case (Call_product_detail k)
  then show ?thesis using assms by (simp add: product_detail_def split: sum.splits)
next
  case Call_product_create
  then show ?thesis
    using write_flow_ids[OF not_writable_categories_create assms] by (simp add: product_create_flow)
next
  case (Call_product_update k)
  then show ?thesis
    using by_id_ids[OF not_writable_categories_create assms] by (simp add: product_update_flow)
next
  case (Call_product_partial_update k)
  then show ?thesis
    using by_id_ids[OF not_writable_categories_create assms] by (simp add: product_partial_update_flow)
next
  case (Call_product_delete k)
  then show ?thesis using delete_ids[OF assms] by simp
next
  case (Call_class_get k)
  then show ?thesis using assms
    by (simp add: ProductView_get_def split: sum.splits option.splits)
next
  case Call_class_post
  then show ?thesis
    using write_flow_ids[OF not_writable_categories_create assms] by (simp add: ProductView_post_flow)
next
  case (Call_class_put k)
  then show ?thesis
    using by_id_ids[OF not_writable_categories_detail assms] by (simp add: ProductView_put_flow)
next
  case (Call_class_patch k)
  then show ?thesis
    using by_id_ids[OF not_writable_categories_detail assms] by (simp add: ProductView_patch_flow)
next
  case (Call_class_delete k)
  have "ProductView_delete M q k d = product_delete M q k d"
    by (simp add: ProductView_delete_def product_delete_def)
  then show ?thesis using Call_class_delete delete_ids[OF assms, of M q k] by simp
qed

lemma run_absent:
  "seq_ok d \<Longrightarrow> k \<le> product_seq d \<Longrightarrow> k \<notin> ids d \<Longrightarrow> k \<notin> ids (run M cs d)"
proof (induction cs arbitrary: d)
  case Nil
  then show ?case by simp
next
  case (Cons a cs)
  obtain c q where a: "a = (c, q)" by (cases a)
  let ?d = "snd (handle M c q d)"
  have h: "seq_ok ?d" "product_seq d \<le> product_seq ?d" "ids ?d \<subseteq> ids d \<union> {k. product_seq d < k}"
    using handle_ids[OF Cons.prems(1), of M c q] by simp_all
  have "k \<notin> ids ?d" using h(3) Cons.prems(2,3) by auto
  moreover have "k \<le> product_seq ?d" using h(2) Cons.prems(2) by simp
  ultimately have "k \<notin> ids (run M cs ?d)" using Cons.IH[OF h(1)] by simp
  then show ?case by (simp add: a)
qed

lemma run_seq_ok: "seq_ok d \<Longrightarrow> seq_ok (run M cs d)"
proof (induction cs arbitrary: d)
  case Nil
  then show ?case by simp
next
  case (Cons a cs)
  obtain c q where a: "a = (c, q)" by (cases a)
  have "seq_ok (snd (handle M c q d))" using handle_ids[OF Cons.prems, of M c q] by simp
  then show ?case using Cons.IH by (simp add: a)
qed

text \<open>
  Claim C6. Deleting a product that exists is answered with 204 and an empty body, and the
  row is removed; a detail fetch for the id right after it is a 404, and so is a detail
  fetch after any further sequence of requests (ids are not handed out twice, given that
  every stored id came from the sequence). Detail, update, partial update and delete on an
  id no stored product has are 404s that leave the database as it is, in the function-based
  and in the class-based handlers.
\<close>

theorem delete_then_404:
  "(get_object_or_404 d pk = Inr obj \<longrightarrow>
      product_delete M request pk d = (Inr \<lparr>status = 204, body = None\<rparr>, delete_product obj d)
      \<and> pk \<notin> ids (delete_product obj d)
      \<and> product_detail M request' pk (delete_product obj d) = (Inl Http404, delete_product obj d)
      \<and> (seq_ok d \<longrightarrow>
           product_detail M request' pk (run M calls (delete_product obj d))
             = (Inl Http404, run M calls (delete_product obj d))))
   \<and> (pk \<notin> ids d \<longrightarrow>
        product_detail M request pk d = (Inl Http404, d)
        \<and> product_update M request pk d = (Inl Http404, d)
        \<and> product_partial_update M request pk d = (Inl Http404, d)
        \<and> product_delete M request pk d = (Inl Http404, d)
        \<and> ProductView_get M request (Some pk) d = (Inl Http404, d)
        \<and> ProductView_put M request pk d = (Inl Http404, d)
        \<and> ProductView_patch M request pk d = (Inl Http404, d)
        \<and> ProductView_delete M request pk d = (Inl Http404, d))
   \<and> status_code (Inl Http404) = 404"
proof (intro conjI impI)
  assume g: "get_object_or_404 d pk = Inr obj"
  have idobj: "product_id obj = pk" and mem: "obj \<in> set (product_table d)"
    using get_object_or_404_Inr[OF g] by simp_all
  show "product_delete M request pk d = (Inr \<lparr>status = 204, body = None\<rparr>, delete_product obj d)"
    by (simp add: product_delete_def g Response_def HTTP_204_NO_CONTENT_def)
  show gone: "pk \<notin> ids (delete_product obj d)"
    by (simp add: delete_product_ids idobj)
  show "product_detail M request' pk (delete_product obj d) = (Inl Http404, delete_product obj d)"
    by (rule missing_handlers(1)[OF gone])
  assume s: "seq_ok d"
  have le: "pk \<le> product_seq (delete_product obj d)"
    using s mem idobj by (auto simp: seq_ok_def list_all_iff delete_product_seq)
  have "pk \<notin> ids (run M calls (delete_product obj d))"
    by (rule run_absent[OF delete_product_seq_ok[OF s] le gone])
  then show "product_detail M request' pk (run M calls (delete_product obj d))
             = (Inl Http404, run M calls (delete_product obj d))"
    by (rule missing_handlers(1))
qed (simp_all add: missing_handlers HTTP_404_NOT_FOUND_def)


theorem delete_then_404_witness:
  "get_object_or_404 example_db 1 =
     Inr \<lparr>product_id = 1, slug = ''tea'', title = ''Tea'', description = ''Green tea'', price = Some 5\<rparr>
   \<and> status_code (fst (product_delete example_model example_request 1 example_db)) = 204
   \<and> body (projr (fst (product_delete example_model example_request 1 example_db))) = None
   \<and> 1 \<notin> ids (snd (product_delete example_model example_request 1 example_db))
   \<and> status_code (fst (product_detail example_model example_request 1
        (snd (product_delete example_model example_request 1 example_db)))) = 404
   \<and> seq_ok example_db
   \<and> status_code (fst (product_detail example_model example_request 1
        (run example_model [(Call_product_create, example_request), (Call_class_post, example_duplicate)]
           (snd (product_delete example_model example_request 1 example_db))))) = 404
   \<and> 9 \<notin> ids example_db
   \<and> status_code (fst (product_detail example_model example_request 9 example_db)) = 404
   \<and> status_code (fst (product_update example_model example_request 9 example_db)) = 404
   \<and> status_code (fst (product_partial_update example_model example_request 9 example_db)) = 404
   \<and> status_code (fst (product_delete example_model example_request 9 example_db)) = 404"
proof -
  let ?obj = "\<lparr>product_id = 1, slug = ''tea'', title = ''Tea'', description = ''Green tea'', price = Some 5\<rparr>"
  have g: "get_object_or_404 example_db 1 = Inr ?obj"
    by (simp add: get_object_or_404_def example_db_def)
  have s: "seq_ok example_db" by (simp add: seq_ok_def example_db_def)
  have m: "9 \<notin> ids example_db" by (simp add: ids_def example_db_def)
  show ?thesis
    using delete_then_404[where M=example_model and d=example_db and pk=1 and obj="?obj"
        and request=example_request and request'=example_request
        and calls="[(Call_product_create, example_request), (Call_class_post, example_duplicate)]"]
      delete_then_404[where M=example_model and d=example_db and pk=9 and obj="?obj"
        and request=example_request and request'=example_request and calls="[]"]
      g s m
    by simp
qed


section \<open>The author routes\<close>

lemma resolve_urlpatterns:
  "resolve urlpatterns path = None
   \<or> resolve urlpatterns path = Some (View_authors_list, [])
   \<or> (\<exists>k. resolve urlpatterns path = Some (View_author_detail, [(''pk'', k)]))"
  by (auto simp: urlpatterns_def Let_def split: option.splits if_splits)

lemma authors_dispatch_reads:
  "snd (authors_dispatch m path tbl) = tbl"
  using resolve_urlpatterns[of path]
  by (auto simp: authors_dispatch_def authors_list_def author_detail_def split: option.splits)

lemma authors_dispatch_list:
  "authors_dispatch GET [] tbl = (\<lparr>author_status = 200, author_body = tbl\<rparr>, tbl)"
  by (simp add: authors_dispatch_def urlpatterns_def authors_list_def)

lemma authors_dispatch_other_method:
  "m \<noteq> GET \<Longrightarrow> author_status (fst (authors_dispatch m path tbl)) \<in> {404, 405}"
  using resolve_urlpatterns[of path]
  by (auto simp: authors_dispatch_def authors_list_def author_detail_def)

text \<open>
  Claim C8. \<^verbatim>\<open>authors/urls.py\<close> has exactly two routes, the list and the detail
  lookup. Whatever the method and the path, serving a request leaves the stored authors as
  they are, so reading twice gives the same answer; GET on the list route returns all
  stored authors in storage order; and a method other than GET is answered with 404 or 405.
\<close>

theorem author_surface_is_read_only:
  "map (fst \<circ> snd) urlpatterns = [View_authors_list, View_author_detail]
   \<and> snd (authors_dispatch m path tbl) = tbl
   \<and> authors_dispatch GET [] tbl = (\<lparr>author_status = 200, author_body = tbl\<rparr>, tbl)
   \<and> authors_dispatch m path (snd (authors_dispatch m path tbl)) = authors_dispatch m path tbl
   \<and> (m \<noteq> GET \<longrightarrow> author_status (fst (authors_dispatch m path tbl)) \<in> {404, 405})"
  using authors_dispatch_reads[of m path tbl] authors_dispatch_list[of tbl]
    authors_dispatch_other_method[of m path tbl]
  by (simp add: urlpatterns_def)

section \<open>Defaults and uniqueness of the custom user\<close>

lemma save_user_distinct:
  assumes "distinct (map email tbl)" and "save_user u tbl = Inr tbl'"
  shows "distinct (map email tbl')"
  using assms by (auto simp: save_user_def email_field_def split: if_splits)

lemma save_user_duplicate:
  "email u \<in> set (map email tbl) \<Longrightarrow> save_user u tbl = Inl IntegrityError"
  by (simp add: save_user_def email_field_def)

lemma clean_fields_blank_names:
  assumes "first_name u = []" and "last_name u = []"
  shows "map_of (clean_fields well_formed u) ''first_name'' = None \<and> map_of (clean_fields well_formed u) ''last_name'' = None"
  using assms
  by (simp add: clean_fields_def clean_char_def first_name_field_def last_name_field_def)

theorem author_surface_is_read_only_witness:
  "map (fst \<circ> snd) urlpatterns = [View_authors_list, View_author_detail]
   \<and> snd (authors_dispatch POST ''7/'' example_authors) = example_authors
   \<and> authors_dispatch GET [] example_authors
       = (\<lparr>author_status = 200, author_body = example_authors\<rparr>, example_authors)
   \<and> authors_dispatch GET ''2/'' (snd (authors_dispatch GET ''2/'' example_authors))
       = authors_dispatch GET ''2/'' example_authors
   \<and> POST \<noteq> GET
   \<and> author_status (fst (authors_dispatch POST ''7/'' example_authors)) \<in> {404, 405}"
  using author_surface_is_read_only[of POST "''7/''" example_authors]
    author_surface_is_read_only[of GET "''2/''" example_authors]
  by simp

text \<open>
  Claim C9. A \<^verbatim>\<open>CustomUser\<close> built without \<^verbatim>\<open>is_active\<close>, \<^verbatim>\<open>is_staff\<close> or
  \<^verbatim>\<open>date_joined\<close> is active, is not staff, and joined at the clock's reading when it
  was built. The email is the login identifier and is unique: storing a user whose email a
  stored user has is refused, and storing keeps the stored emails pairwise distinct. Empty
  first and last names pass field validation.
\<close>

theorem custom_user_defaults:
  "(kw_is_active kw = None \<longrightarrow> is_active (CustomUser now kw) = True)
   \<and> (kw_is_staff kw = None \<longrightarrow> is_staff (CustomUser now kw) = False)
   \<and> (kw_date_joined kw = None \<longrightarrow> date_joined (CustomUser now kw) = now)
   \<and> USERNAME_FIELD = ''email'' \<and> unique email_field
   \<and> (email u \<in> set (map email tbl) \<longrightarrow> save_user u tbl = Inl IntegrityError)
   \<and> (distinct (map email tbl) \<and> save_user u tbl = Inr tbl' \<longrightarrow> distinct (map email tbl'))
   \<and> (first_name u = [] \<and> last_name u = [] \<longrightarrow>
        map_of (clean_fields well_formed u) ''first_name'' = None \<and> map_of (clean_fields well_formed u) ''last_name'' = None)"
  using save_user_distinct[of tbl u tbl'] save_user_duplicate[of u tbl] clean_fields_blank_names[of u well_formed]
  by (simp add: CustomUser_def is_active_default_def is_staff_default_def USERNAME_FIELD_def
      email_field_def)


theorem custom_user_defaults_witness:
  "kw_is_active example_kwargs = None \<and> is_active (CustomUser 42 example_kwargs) = True
   \<and> kw_is_staff example_kwargs = None \<and> is_staff (CustomUser 42 example_kwargs) = False
   \<and> kw_date_joined example_kwargs = None \<and> date_joined (CustomUser 42 example_kwargs) = 42
   \<and> USERNAME_FIELD = ''email'' \<and> unique email_field
   \<and> email (hd example_users) \<in> set (map email example_users)
   \<and> save_user (hd example_users) example_users = Inl IntegrityError
   \<and> distinct (map email example_users)
   \<and> save_user (CustomUser 42 example_kwargs) example_users
       = Inr (example_users @ [CustomUser 42 example_kwargs])
   \<and> distinct (map email (example_users @ [CustomUser 42 example_kwargs]))
   \<and> first_name (CustomUser 42 example_kwargs) = []
   \<and> last_name (CustomUser 42 example_kwargs) = []
   \<and> map_of (clean_fields (\<lambda>s. CHR ''@'' \<in> set s) (CustomUser 42 example_kwargs)) ''first_name'' = None
   \<and> map_of (clean_fields (\<lambda>s. CHR ''@'' \<in> set s) (CustomUser 42 example_kwargs)) ''last_name'' = None"
proof -
  have k: "kw_is_active example_kwargs = None" "kw_is_staff example_kwargs = None"
    "kw_date_joined example_kwargs = None"
    by (simp_all add: example_kwargs_def)
  have n: "first_name (CustomUser 42 example_kwargs) = []" "last_name (CustomUser 42 example_kwargs) = []"
    by (simp_all add: CustomUser_def example_kwargs_def)
  have m: "email (hd example_users) \<in> set (map email example_users)"
    by (simp add: example_users_def)
  have d: "distinct (map email example_users)" by (simp add: example_users_def)
  have s: "save_user (CustomUser 42 example_kwargs) example_users
       = Inr (example_users @ [CustomUser 42 example_kwargs])"
    by (simp add: save_user_def CustomUser_def example_kwargs_def example_users_def)
  show ?thesis
    using custom_user_defaults[where kw=example_kwargs and now=42 and u="hd example_users"
        and tbl=example_users and tbl'="example_users @ [CustomUser 42 example_kwargs]"
        and well_formed="\<lambda>s. CHR ''@'' \<in> set s"]
      custom_user_defaults[where kw=example_kwargs and now=42 and u="CustomUser 42 example_kwargs"
        and tbl=example_users and tbl'="example_users @ [CustomUser 42 example_kwargs]"
        and well_formed="\<lambda>s. CHR ''@'' \<in> set s"]
      k n m d s
    by simp
qed

section \<open>Repeating a full update\<close>

lemma slug_taken_update:
  assumes "product_id r = pk"
  shows "slug_taken (d\<lparr>product_table :=
            map (\<lambda>x. if product_id x = pk then r else x) (product_table d)\<rparr>) s (Some pk)
       = slug_taken d s (Some pk)"
  using assms by (auto simp: slug_taken_def)

lemma slug_field_update:
  assumes "product_id r = pk" and "product_id obj = pk"
  shows "slug_field M (d\<lparr>product_table :=
            map (\<lambda>x. if product_id x = pk then r else x) (product_table d)\<rparr>) (Some r)
       = slug_field M d (Some obj)"
proof -
  have "unique_validator (d\<lparr>product_table :=
            map (\<lambda>x. if product_id x = pk then r else x) (product_table d)\<rparr>) (Some r)
      = unique_validator d (Some obj)"
    using slug_taken_update[OF assms(1), of d] assms
    by (intro ext) (simp add: unique_validator_def)
  then show ?thesis by (simp add: slug_field_def)
qed

lemma run_validation_again:
  assumes "\<not> writable c ''categories''" and "product_id r = pk" and "product_id obj = pk"
  shows "run_validation (new_serializer c (Some r) dt p)
           (d\<lparr>product_table := map (\<lambda>x. if product_id x = pk then r else x) (product_table d)\<rparr>)
       = run_validation (new_serializer c (Some obj) dt p) d"
proof -
  let ?d1 = "d\<lparr>product_table := map (\<lambda>x. if product_id x = pk then r else x) (product_table d)\<rparr>"
  have s: "slug_outcome (new_serializer c (Some r) dt p) ?d1
         = slug_outcome (new_serializer c (Some obj) dt p) d"
    by (simp add: slug_outcome_def slug_field_update[OF assms(2,3)] run_field_def)
  have t: "title_outcome (new_serializer c (Some r) dt p)
         = title_outcome (new_serializer c (Some obj) dt p)"
    by (simp add: title_outcome_def run_field_def)
  have ds: "description_outcome (new_serializer c (Some r) dt p)
         = description_outcome (new_serializer c (Some obj) dt p)"
    by (simp add: description_outcome_def run_field_def)
  have n: "price_outcome (new_serializer c (Some r) dt p)
         = price_outcome (new_serializer c (Some obj) dt p)"
    by (simp add: price_outcome_def run_field_def)
  have k: "categories_outcome (new_serializer c (Some r) dt p) ?d1
         = categories_outcome (new_serializer c (Some obj) dt p) d"
    using assms(1) by (simp add: categories_outcome_def run_field_unwritable)
  have f: "field_errors (new_serializer c (Some r) dt p) ?d1
         = field_errors (new_serializer c (Some obj) dt p) d"
    by (intro ext) (simp add: field_errors_def s t ds n k)
  show ?thesis
    by (simp add: run_validation_def s t ds n k f)
qed

lemma assign_columns_twice: "assign_columns v (assign_columns v r) = assign_columns v r"
  by (simp add: assign_columns_def split: option.splits)

lemma write_flow_twice:
  assumes "\<not> writable c ''categories''" and "get_object_or_404 d pk = Inr obj"
  shows "(case get_object_or_404 (snd (write_flow c (Some obj) dt p st d)) pk of
            Inl e \<Rightarrow> (Inl e, snd (write_flow c (Some obj) dt p st d))
          | Inr obj' \<Rightarrow> write_flow c (Some obj') dt p st (snd (write_flow c (Some obj) dt p st d)))
       = write_flow c (Some obj) dt p st d"
  using assms(1)
proof (cases rule: write_flow_update_cases[where obj=obj and dt=dt and p=p and d=d and st=st])
  case rejected
  then show ?thesis using assms(2) by simp
next
  case (refused e)
  then show ?thesis using assms(2) by simp
next
  case (saved v r d')
  have idobj: "product_id obj = pk" using get_object_or_404_Inr[OF assms(2)] by simp
  have ok: "row_ok d r (Some (product_id r))" and r: "r = assign_columns v obj"
    and d': "d' = d\<lparr>product_table :=
                  map (\<lambda>x. if product_id x = product_id r then r else x) (product_table d)\<rparr>"
    using update_Inr[OF saved(2,3)] by blast+
  have idr: "product_id r = pk" using r idobj by simp
  have d'': "d' = d\<lparr>product_table := map (\<lambda>x. if product_id x = pk then r else x) (product_table d)\<rparr>"
    using d' idr by simp
  have look: "get_object_or_404 d' pk = Inr r"
    using update_lookup[OF assms(2) saved(2,3), of pk] by simp
  have rv: "run_validation (new_serializer c (Some r) dt p) d' = (v, [])"
    unfolding d'' using run_validation_again[OF assms(1) idr idobj, of dt p d] saved(1) by simp
  have again: "assign_columns v r = r" using r by (simp add: assign_columns_twice)
  have ok': "row_ok d' (assign_columns v r) (Some (product_id (assign_columns v r)))"
    using ok slug_taken_update[OF idr, of d "slug r"]
    by (simp add: again row_ok_def idr d'')
  have tbl: "map (\<lambda>x. if product_id x = pk then r else x) (product_table d') = product_table d'"
    unfolding d'' using idr by simp
  have "update r v d' =
      Inr (assign_columns v r,
           d'\<lparr>product_table :=
               map (\<lambda>x. if product_id x = product_id (assign_columns v r)
                        then assign_columns v r else x) (product_table d')\<rparr>)"
    by (rule update_ok[OF saved(2) ok'])
  then have "update r v d' =
      Inr (r, d'\<lparr>product_table :=
                  map (\<lambda>x. if product_id x = pk then r else x) (product_table d')\<rparr>)"
    unfolding again idr .
  then have "update r v d' = Inr (r, d')"
    unfolding tbl by simp
  then have "write_flow c (Some r) dt p st d' = (Inr (Response (Some (to_representation c d' r)) st), d')"
    by (simp add: write_flow_def rv)
  then show ?thesis using saved(4) look by simp
qed

lemma update_twice:
  assumes "\<not> writable c ''categories''"
  shows "(case get_object_or_404
               (snd (case get_object_or_404 d pk of Inl e \<Rightarrow> (Inl e, d)
                     | Inr obj \<Rightarrow> write_flow c (Some obj) dt p st d)) pk of
            Inl e \<Rightarrow> (Inl e, snd (case get_object_or_404 d pk of Inl e \<Rightarrow> (Inl e, d)
                     | Inr obj \<Rightarrow> write_flow c (Some obj) dt p st d))
          | Inr obj' \<Rightarrow> write_flow c (Some obj') dt p st
               (snd (case get_object_or_404 d pk of Inl e \<Rightarrow> (Inl e, d)
                     | Inr obj \<Rightarrow> write_flow c (Some obj) dt p st d)))
       = (case get_object_or_404 d pk of Inl e \<Rightarrow> (Inl e, d)
          | Inr obj \<Rightarrow> write_flow c (Some obj) dt p st d)"
proof (cases "get_object_or_404 d pk")
  case (Inl e)
  then show ?thesis by simp
next
  case (Inr obj)
  have e: "(case get_object_or_404 d pk of Inl e \<Rightarrow> (Inl e, d)
            | Inr obj \<Rightarrow> write_flow c (Some obj) dt p st d) = write_flow c (Some obj) dt p st d"
    using Inr by simp
  show ?thesis unfolding e by (rule write_flow_twice[OF assms Inr])
qed

lemma put_twice:
  "product_update M request pk (snd (product_update M request pk d)) = product_update M request pk d"
  "ProductView_put M request pk (snd (ProductView_put M request pk d)) = ProductView_put M request pk d"
  using update_twice[OF not_writable_categories_create, where d=d and pk=pk and dt="data request"
          and p=False and st=None]
        update_twice[OF not_writable_categories_detail, where d=d and pk=pk and dt="data request"
          and p=False and st="Some HTTP_200_OK"]
  by (simp_all add: product_update_flow ProductView_put_flow)



section \<open>What a detail fetch shows after a full update\<close>

lemma no_errors_field:
  "snd (run_validation ser d) = [] \<Longrightarrow> f \<in> set (meta_fields (cls ser)) \<Longrightarrow> field_errors ser d f = []"
  by (simp add: run_validation_def)

lemma run_field_read:
  assumes "writable c f"
      and "error_of f (run_field (new_serializer c i dt False) f req field) = []"
  shows "case dt f of
           None \<Rightarrow> \<not> req \<and> run_field (new_serializer c i dt False) f req field = Absent
         | Some x \<Rightarrow> \<exists>y. field x = Inr y
                        \<and> run_field (new_serializer c i dt False) f req field = Good y"
  using assms by (auto simp: run_field_def split: option.splits sum.splits if_splits)

lemma saved_fields:
  assumes "run_validation (new_serializer c (Some obj) dt False) d = (v, [])"
  shows "writable c ''slug'' \<Longrightarrow>
           (case dt ''slug'' of
              None \<Rightarrow> \<not> required (slug_column (meta_model c)) \<and> slug (assign_columns v obj) = slug obj
            | Some x \<Rightarrow> slug_field (meta_model c) d (Some obj) x = Inr (slug (assign_columns v obj)))"
    and "writable c ''title'' \<Longrightarrow>
           (case dt ''title'' of
              None \<Rightarrow> \<not> required (title_column (meta_model c)) \<and> title (assign_columns v obj) = title obj
            | Some x \<Rightarrow> title_field (meta_model c) x = Inr (title (assign_columns v obj)))"
    and "writable c ''description'' \<Longrightarrow>
           (case dt ''description'' of
              None \<Rightarrow> \<not> required (description_column (meta_model c))
                       \<and> description (assign_columns v obj) = description obj
            | Some x \<Rightarrow> description_field (meta_model c) x = Inr (description (assign_columns v obj)))"
    and "writable c ''price'' \<Longrightarrow>
           (case dt ''price'' of
              None \<Rightarrow> \<not> price_required (meta_model c) \<and> price (assign_columns v obj) = price obj
            | Some x \<Rightarrow> \<exists>n. price_field (meta_model c) x = Inr n
                           \<and> price (assign_columns v obj) = Some n)"
    and "\<not> writable c ''description'' \<Longrightarrow> description (assign_columns v obj) = description obj"
proof -
  let ?ser = "new_serializer c (Some obj) dt False"
  have e: "snd (run_validation ?ser d) = []" and v: "v = fst (run_validation ?ser d)"
    using assms by simp_all
  have none: "field_errors ?ser d f = []" if "writable c f" for f
    using no_errors_field[OF e, of f] that by (simp add: writable_def)
  {
    assume w: "writable c ''slug''"
    have "error_of ''slug'' (slug_outcome ?ser d) = []"
      using none[OF w] by (simp add: field_errors_def)
    then show "case dt ''slug'' of
        None \<Rightarrow> \<not> required (slug_column (meta_model c)) \<and> slug (assign_columns v obj) = slug obj
      | Some x \<Rightarrow> slug_field (meta_model c) d (Some obj) x = Inr (slug (assign_columns v obj))"
      using run_field_read[OF w, of "Some obj" dt "required (slug_column (meta_model c))"
          "slug_field (meta_model c) d (Some obj)"]
      by (auto simp: v run_validation_def slug_outcome_def assign_columns_def split: option.splits)
  }
  {
    assume w: "writable c ''title''"
    have "error_of ''title'' (title_outcome ?ser) = []"
      using none[OF w] by (simp add: field_errors_def)
    then show "case dt ''title'' of
        None \<Rightarrow> \<not> required (title_column (meta_model c)) \<and> title (assign_columns v obj) = title obj
      | Some x \<Rightarrow> title_field (meta_model c) x = Inr (title (assign_columns v obj))"
      using run_field_read[OF w, of "Some obj" dt "required (title_column (meta_model c))"
          "title_field (meta_model c)"]
      by (auto simp: v run_validation_def title_outcome_def assign_columns_def split: option.splits)
  }
  {
    assume w: "writable c ''description''"
    have "error_of ''description'' (description_outcome ?ser) = []"
      using none[OF w] by (simp add: field_errors_def)
    then show "case dt ''description'' of
        None \<Rightarrow> \<not> required (description_column (meta_model c))
                 \<and> description (assign_columns v obj) = description obj
      | Some x \<Rightarrow> description_field (meta_model c) x = Inr (description (assign_columns v obj))"
      using run_field_read[OF w, of "Some obj" dt "required (description_column (meta_model c))"
          "description_field (meta_model c)"]
      by (auto simp: v run_validation_def description_outcome_def assign_columns_def
          split: option.splits)
  }
  {
    assume w: "writable c ''price''"
    have "error_of ''price'' (price_outcome ?ser) = []"
      using none[OF w] by (simp add: field_errors_def)
    then show "case dt ''price'' of
        None \<Rightarrow> \<not> price_required (meta_model c) \<and> price (assign_columns v obj) = price obj
      | Some x \<Rightarrow> \<exists>n. price_field (meta_model c) x = Inr n \<and> price (assign_columns v obj) = Some n"
      using run_field_read[OF w, of "Some obj" dt "price_required (meta_model c)"
          "price_field (meta_model c)"]
      by (auto simp: v run_validation_def price_outcome_def assign_columns_def split: option.splits)
  }
  {
    assume "\<not> writable c ''description''"
    then show "description (assign_columns v obj) = description obj"
      by (simp add: v run_validation_def description_outcome_def run_field_unwritable
          assign_columns_def)
  }
qed

lemma write_flow_saved:
  assumes "\<not> writable c ''categories''"
      and "status_code (fst (write_flow c (Some obj) dt p st d)) = 200"
  obtains v r d' where "run_validation (new_serializer c (Some obj) dt p) d = (v, [])"
      "vd_categories v = None" "update obj v d = Inr (r, d')"
      "snd (write_flow c (Some obj) dt p st d) = d'"
  using assms(1)
proof (cases rule: write_flow_update_cases[where obj=obj and dt=dt and p=p and d=d and st=st])
  case rejected
  then show ?thesis using assms(2) by simp
next
  case (refused e)
  then show ?thesis
    using assms(2)
    by (cases e) (simp_all add: HTTP_404_NOT_FOUND_def HTTP_500_INTERNAL_SERVER_ERROR_def)
next
  case (saved v r d')
  then show ?thesis using that by simp
qed

lemma detail_after_update:
  assumes "get_object_or_404 d pk = Inr obj" and "vd_categories v = None"
      and "update obj v d = Inr (r, d')"
  shows "r = assign_columns v obj"
    and "\<exists>n. price r = Some n"
    and "product_detail M q pk d' =
           (Inr \<lparr>status = 200,
                 body = Some (JObj [(''id'', JInt pk),
                   (''categories'', JList (map CategorySerializer_data (categories_of d pk))),
                   (''slug'', JStr (slug r)), (''title'', JStr (title r)),
                   (''description'', JStr (description r)),
                   (''price'', price_repr M (the (price r)))])\<rparr>, d')"
proof -
  have ok: "row_ok d r (Some (product_id r))" and r: "r = assign_columns v obj"
    using update_Inr[OF assms(2,3)] by blast+
  show "r = assign_columns v obj" by (rule r)
  show n: "\<exists>n. price r = Some n" using ok by (auto simp: row_ok_def)
  have idr: "product_id r = pk"
    using r get_object_or_404_Inr[OF assms(1)] by simp
  have look: "get_object_or_404 d' pk = Inr r"
    using update_lookup[OF assms, of pk] by simp
  have "categories_of d' pk = categories_of d pk"
    using update_relation_frame[OF assms(2,3)] by (simp add: categories_of_def)
  then show "product_detail M q pk d' =
           (Inr \<lparr>status = 200,
                 body = Some (JObj [(''id'', JInt pk),
                   (''categories'', JList (map CategorySerializer_data (categories_of d pk))),
                   (''slug'', JStr (slug r)), (''title'', JStr (title r)),
                   (''description'', JStr (description r)),
                   (''price'', price_repr M (the (price r)))])\<rparr>, d')"
    using n idr
    by (auto simp add: product_detail_def look Response_def HTTP_200_OK_def
        to_representation_def ProductDetailSerializer_def field_repr_def)
qed


lemma CharField_validated:
  "CharField False vs x = Inr s \<Longrightarrow> v \<in> set vs \<Longrightarrow> v s = []"
  by (auto simp: CharField_def run_validators_def Let_def split: option.splits if_splits)

lemma valid_put_saves:
  assumes "\<not> writable c ''categories''" and "writable c ''slug''" and "writable c ''price''"
      and "get_object_or_404 d pk = Inr obj"
      and "required (slug_column (meta_model c))" and "\<not> allow_blank (slug_column (meta_model c))"
      and "price_required (meta_model c)"
      and "snd (run_validation (new_serializer c (Some obj) dt False) d) = []"
  shows "\<exists>r d'. write_flow c (Some obj) dt False st d
           = (Inr (Response (Some (to_representation c d' r)) st), d')"
proof -
  obtain v where rv: "run_validation (new_serializer c (Some obj) dt False) d = (v, [])"
    using assms(8) by (cases "run_validation (new_serializer c (Some obj) dt False) d") simp
  have vc: "vd_categories v = None"
    using run_validation_unwritable_categories[OF assms(1), of "Some obj" dt False d] rv by simp
  have pk: "product_id obj = pk" using get_object_or_404_Inr[OF assms(4)] by simp
  let ?r = "assign_columns v obj"
  obtain x where x: "slug_field (meta_model c) d (Some obj) x = Inr (slug ?r)"
    using saved_fields(1)[OF rv assms(2)] assms(5) by (auto split: option.splits)
  have "unique_validator d (Some obj) (slug ?r) = []"
    using x assms(6)
    by (auto simp: slug_field_def char_column_field_def intro: CharField_validated)
  then have free: "\<not> slug_taken d (slug ?r) (Some pk)"
    using pk by (auto simp: unique_validator_def split: if_splits)
  have "price ?r \<noteq> None"
    using saved_fields(4)[OF rv assms(3)] assms(7) by (auto split: option.splits)
  then have "row_ok d ?r (Some (product_id ?r))"
    using free pk by (simp add: row_ok_def)
  then have "update obj v d =
      Inr (?r, d\<lparr>product_table :=
                  map (\<lambda>x. if product_id x = product_id ?r then ?r else x) (product_table d)\<rparr>)"
    by (rule update_ok[OF vc])
  then have "write_flow c (Some obj) dt False st d =
      (Inr (Response (Some (to_representation c
          (d\<lparr>product_table :=
               map (\<lambda>x. if product_id x = product_id ?r then ?r else x) (product_table d)\<rparr>) ?r)) st),
       d\<lparr>product_table :=
           map (\<lambda>x. if product_id x = product_id ?r then ?r else x) (product_table d)\<rparr>)"
    by (simp add: write_flow_def rv)
  then show ?thesis by blast
qed

lemma ProductView_get_detail: "ProductView_get M q (Some pk) d = product_detail M q pk d"
  by (simp add: ProductView_get_def product_detail_def Response_def HTTP_200_OK_def
      split: sum.splits)

text \<open>
  Claim C5. Sending the same PUT a second time, right after the first, gives the same
  response as the first and leaves the database as the first left it; this holds for the
  function-based \<^verbatim>\<open>product_update\<close> and for \<^verbatim>\<open>ProductView.put\<close>, for every request.

  After a PUT on a stored product that is answered with 200, a detail fetch shows, in the
  order id, categories, slug, title, description, price: for each field the serializer
  writes, the value its field accepted for the request's entry (for slug and title the
  text without its surrounding whitespace), and the stored value where the request has no
  entry; the stored categories; and through the function-based handler the stored
  description, through the class-based one the description as validated.

  A valid body on a stored product is answered with 200 whenever the declaration requires
  slug and price and allows no blank slug.
\<close>

theorem put_is_idempotent:
  "product_update M request pk (snd (product_update M request pk d)) = product_update M request pk d
   \<and> ProductView_put M request pk (snd (ProductView_put M request pk d)) = ProductView_put M request pk d
   \<and> (get_object_or_404 d pk = Inr obj \<and> status_code (fst (product_update M request pk d)) = 200 \<longrightarrow>
       (\<exists>s t n.
          product_detail M q pk (snd (product_update M request pk d)) =
            (Inr \<lparr>status = 200,
                  body = Some (JObj [(''id'', JInt pk),
                    (''categories'', JList (map CategorySerializer_data (categories_of d pk))),
                    (''slug'', JStr s), (''title'', JStr t), (''description'', JStr (description obj)),
                    (''price'', price_repr M n)])\<rparr>,
             snd (product_update M request pk d))
          \<and> (case data request ''slug'' of
                None \<Rightarrow> s = slug obj | Some x \<Rightarrow> slug_field M d (Some obj) x = Inr s)
          \<and> (case data request ''title'' of
                None \<Rightarrow> t = title obj | Some x \<Rightarrow> title_field M x = Inr t)
          \<and> (case data request ''price'' of
                None \<Rightarrow> price obj = Some n | Some x \<Rightarrow> price_field M x = Inr n)))
   \<and> (get_object_or_404 d pk = Inr obj \<and> status_code (fst (ProductView_put M request pk d)) = 200 \<longrightarrow>
       (\<exists>s t ds n.
          ProductView_get M q (Some pk) (snd (ProductView_put M request pk d)) =
            (Inr \<lparr>status = 200,
                  body = Some (JObj [(''id'', JInt pk),
                    (''categories'', JList (map CategorySerializer_data (categories_of d pk))),
                    (''slug'', JStr s), (''title'', JStr t), (''description'', JStr ds),
                    (''price'', price_repr M n)])\<rparr>,
             snd (ProductView_put M request pk d))
          \<and> (case data request ''slug'' of
                None \<Rightarrow> s = slug obj | Some x \<Rightarrow> slug_field M d (Some obj) x = Inr s)
          \<and> (case data request ''title'' of
                None \<Rightarrow> t = title obj | Some x \<Rightarrow> title_field M x = Inr t)
          \<and> (case data request ''description'' of
                None \<Rightarrow> ds = description obj | Some x \<Rightarrow> description_field M x = Inr ds)
          \<and> (case data request ''price'' of
                None \<Rightarrow> price obj = Some n | Some x \<Rightarrow> price_field M x = Inr n)))
   \<and> (get_object_or_404 d pk = Inr obj
        \<and> required (slug_column M) \<and> \<not> allow_blank (slug_column M) \<and> price_required M \<longrightarrow>
       (fst (is_valid (new_serializer (ProductCreateSerializer M) (Some obj) (data request) False) d) \<longrightarrow>
          status_code (fst (product_update M request pk d)) = 200)
       \<and> (fst (is_valid (new_serializer (ProductDetailSerializer M) (Some obj) (data request) False) d) \<longrightarrow>
          status_code (fst (ProductView_put M request pk d)) = 200))"
proof -
  have 1: "product_update M request pk (snd (product_update M request pk d)) = product_update M request pk d"
    by (rule put_twice(1))
  have 2: "ProductView_put M request pk (snd (ProductView_put M request pk d)) = ProductView_put M request pk d"
    by (rule put_twice(2))
  have 3: "(\<exists>s t n.
            product_detail M q pk (snd (product_update M request pk d)) =
              (Inr \<lparr>status = 200,
                    body = Some (JObj [(''id'', JInt pk),
                      (''categories'', JList (map CategorySerializer_data (categories_of d pk))),
                      (''slug'', JStr s), (''title'', JStr t), (''description'', JStr (description obj)),
                      (''price'', price_repr M n)])\<rparr>,
               snd (product_update M request pk d))
            \<and> (case data request ''slug'' of
                  None \<Rightarrow> s = slug obj | Some x \<Rightarrow> slug_field M d (Some obj) x = Inr s)
            \<and> (case data request ''title'' of
                  None \<Rightarrow> t = title obj | Some x \<Rightarrow> title_field M x = Inr t)
            \<and> (case data request ''price'' of
                  None \<Rightarrow> price obj = Some n | Some x \<Rightarrow> price_field M x = Inr n))"
    if g: "get_object_or_404 d pk = Inr obj"
      and ok: "status_code (fst (product_update M request pk d)) = 200"
  proof -
    have ok': "status_code (fst (write_flow (ProductCreateSerializer M) (Some obj) (data request)
        False None d)) = 200"
      using ok g by (simp add: product_update_flow)
    from not_writable_categories_create[of M] ok'
    obtain v r d' where
      rv: "run_validation (new_serializer (ProductCreateSerializer M) (Some obj) (data request) False) d
         = (v, [])"
      and vc: "vd_categories v = None" and up: "update obj v d = Inr (r, d')"
      and d': "snd (write_flow (ProductCreateSerializer M) (Some obj) (data request) False None d) = d'"
      by (rule write_flow_saved)
    have snd: "snd (product_update M request pk d) = d'"
      using d' g by (simp add: product_update_flow)
    have r: "r = assign_columns v obj" by (rule detail_after_update(1)[OF g vc up])
    obtain n where n: "price r = Some n" using detail_after_update(2)[OF g vc up] by blast
    have ds: "description r = description obj"
      using saved_fields(5)[OF rv] by (simp add: r writable_create)
    have det: "product_detail M q pk (snd (product_update M request pk d)) =
            (Inr \<lparr>status = 200,
                  body = Some (JObj [(''id'', JInt pk),
                    (''categories'', JList (map CategorySerializer_data (categories_of d pk))),
                    (''slug'', JStr (slug r)), (''title'', JStr (title r)),
                    (''description'', JStr (description obj)),
                    (''price'', price_repr M n)])\<rparr>,
             snd (product_update M request pk d))"
      using detail_after_update(3)[OF g vc up, of M q] by (simp add: snd n ds)
    have fs: "case data request ''slug'' of
                None \<Rightarrow> slug r = slug obj | Some x \<Rightarrow> slug_field M d (Some obj) x = Inr (slug r)"
      using saved_fields(1)[OF rv] by (auto simp: r writable_create split: option.splits)
    have ft: "case data request ''title'' of
                None \<Rightarrow> title r = title obj | Some x \<Rightarrow> title_field M x = Inr (title r)"
      using saved_fields(2)[OF rv] by (auto simp: r writable_create split: option.splits)
    have fp: "case data request ''price'' of
                None \<Rightarrow> price obj = Some n | Some x \<Rightarrow> price_field M x = Inr n"
      using saved_fields(4)[OF rv] n by (auto simp: r writable_create split: option.splits)
    show ?thesis using det fs ft fp by blast
  qed
  have 4: "(\<exists>s t ds n.
            ProductView_get M q (Some pk) (snd (ProductView_put M request pk d)) =
              (Inr \<lparr>status = 200,
                    body = Some (JObj [(''id'', JInt pk),
                      (''categories'', JList (map CategorySerializer_data (categories_of d pk))),
                      (''slug'', JStr s), (''title'', JStr t), (''description'', JStr ds),
                      (''price'', price_repr M n)])\<rparr>,
               snd (ProductView_put M request pk d))
            \<and> (case data request ''slug'' of
                  None \<Rightarrow> s = slug obj | Some x \<Rightarrow> slug_field M d (Some obj) x = Inr s)
            \<and> (case data request ''title'' of
                  None \<Rightarrow> t = title obj | Some x \<Rightarrow> title_field M x = Inr t)
            \<and> (case data request ''description'' of
                  None \<Rightarrow> ds = description obj | Some x \<Rightarrow> description_field M x = Inr ds)
            \<and> (case data request ''price'' of
                  None \<Rightarrow> price obj = Some n | Some x \<Rightarrow> price_field M x = Inr n))"
    if g: "get_object_or_404 d pk = Inr obj"
      and ok: "status_code (fst (ProductView_put M request pk d)) = 200"
  proof -
    have ok': "status_code (fst (write_flow (ProductDetailSerializer M) (Some obj) (data request)
        False (Some HTTP_200_OK) d)) = 200"
      using ok g by (simp add: ProductView_put_flow)
    from not_writable_categories_detail[of M] ok'
    obtain v r d' where
      rv: "run_validation (new_serializer (ProductDetailSerializer M) (Some obj) (data request) False) d
         = (v, [])"
      and vc: "vd_categories v = None" and up: "update obj v d = Inr (r, d')"
      and d': "snd (write_flow (ProductDetailSerializer M) (Some obj) (data request) False
                 (Some HTTP_200_OK) d) = d'"
      by (rule write_flow_saved)
    have snd: "snd (ProductView_put M request pk d) = d'"
      using d' g by (simp add: ProductView_put_flow)
    have r: "r = assign_columns v obj" by (rule detail_after_update(1)[OF g vc up])
    obtain n where n: "price r = Some n" using detail_after_update(2)[OF g vc up] by blast
    have det: "ProductView_get M q (Some pk) (snd (ProductView_put M request pk d)) =
            (Inr \<lparr>status = 200,
                  body = Some (JObj [(''id'', JInt pk),
                    (''categories'', JList (map CategorySerializer_data (categories_of d pk))),
                    (''slug'', JStr (slug r)), (''title'', JStr (title r)),
                    (''description'', JStr (description r)),
                    (''price'', price_repr M n)])\<rparr>,
             snd (ProductView_put M request pk d))"
      using detail_after_update(3)[OF g vc up, of M q]
      by (simp add: ProductView_get_detail snd n)
    have fs: "case data request ''slug'' of
                None \<Rightarrow> slug r = slug obj | Some x \<Rightarrow> slug_field M d (Some obj) x = Inr (slug r)"
      using saved_fields(1)[OF rv] by (auto simp: r writable_detail split: option.splits)
    have ft: "case data request ''title'' of
                None \<Rightarrow> title r = title obj | Some x \<Rightarrow> title_field M x = Inr (title r)"
      using saved_fields(2)[OF rv] by (auto simp: r writable_detail split: option.splits)
    have fd: "case data request ''description'' of
                None \<Rightarrow> description r = description obj
              | Some x \<Rightarrow> description_field M x = Inr (description r)"
      using saved_fields(3)[OF rv] by (auto simp: r writable_detail split: option.splits)
    have fp: "case data request ''price'' of
                None \<Rightarrow> price obj = Some n | Some x \<Rightarrow> price_field M x = Inr n"
      using saved_fields(4)[OF rv] n by (auto simp: r writable_detail split: option.splits)
    show ?thesis using det fs ft fd fp by blast
  qed
  have 5: "status_code (fst (product_update M request pk d)) = 200"
    if "get_object_or_404 d pk = Inr obj" "required (slug_column M)" "\<not> allow_blank (slug_column M)"
      "price_required M"
      "fst (is_valid (new_serializer (ProductCreateSerializer M) (Some obj) (data request) False) d)"
    using valid_put_saves[of "ProductCreateSerializer M" d pk obj "data request" None] that
    by (auto simp: product_update_flow writable_create is_valid_fst Response_def HTTP_200_OK_def)
  have 6: "status_code (fst (ProductView_put M request pk d)) = 200"
    if "get_object_or_404 d pk = Inr obj" "required (slug_column M)" "\<not> allow_blank (slug_column M)"
      "price_required M"
      "fst (is_valid (new_serializer (ProductDetailSerializer M) (Some obj) (data request) False) d)"
    using valid_put_saves[of "ProductDetailSerializer M" d pk obj "data request" "Some HTTP_200_OK"] that
    by (auto simp: ProductView_put_flow writable_detail is_valid_fst Response_def HTTP_200_OK_def)
  show ?thesis using 1 2 3 4 5 6 by blast
qed


theorem put_is_idempotent_witness:
  "product_update example_model example_request 1
       (snd (product_update example_model example_request 1 example_db))
     = product_update example_model example_request 1 example_db
   \<and> ProductView_put example_model example_request 1
       (snd (ProductView_put example_model example_request 1 example_db))
     = ProductView_put example_model example_request 1 example_db
   \<and> get_object_or_404 example_db 1 = Inr \<lparr>product_id = 1, slug = ''tea'', title = ''Tea'', description = ''Green tea'', price = Some 5\<rparr>
   \<and> required (slug_column example_model) \<and> \<not> allow_blank (slug_column example_model)
   \<and> price_required example_model
   \<and> fst (is_valid (new_serializer (ProductCreateSerializer example_model)
        (Some \<lparr>product_id = 1, slug = ''tea'', title = ''Tea'', description = ''Green tea'', price = Some 5\<rparr>)
        (data example_request) False) example_db)
   \<and> fst (is_valid (new_serializer (ProductDetailSerializer example_model)
        (Some \<lparr>product_id = 1, slug = ''tea'', title = ''Tea'', description = ''Green tea'', price = Some 5\<rparr>)
        (data example_request) False) example_db)
   \<and> status_code (fst (product_update example_model example_request 1 example_db)) = 200
   \<and> status (projr (fst (product_detail example_model example_request 1
              (snd (product_update example_model example_request 1 example_db))))) = 200
   \<and> body (projr (fst (product_detail example_model example_request 1
              (snd (product_update example_model example_request 1 example_db)))))
       = Some (JObj [(''id'', JInt 1),
                 (''categories'', JList [JObj [(''id'', JInt 1), (''name'', JStr ''drinks'')]]),
                 (''slug'', JStr ''jam''), (''title'', JStr ''Jam''),
                 (''description'', JStr ''Green tea''), (''price'', JInt 3)])
   \<and> status_code (fst (ProductView_put example_model example_request 1 example_db)) = 200
   \<and> status (projr (fst (ProductView_get example_model example_request (Some 1)
              (snd (ProductView_put example_model example_request 1 example_db))))) = 200
   \<and> body (projr (fst (ProductView_get example_model example_request (Some 1)
              (snd (ProductView_put example_model example_request 1 example_db)))))
       = Some (JObj [(''id'', JInt 1),
                 (''categories'', JList [JObj [(''id'', JInt 1), (''name'', JStr ''drinks'')]]),
                 (''slug'', JStr ''jam''), (''title'', JStr ''Jam''),
                 (''description'', JStr ''Plum''), (''price'', JInt 3)])"
proof -
  let ?obj = "\<lparr>product_id = 1, slug = ''tea'', title = ''Tea'', description = ''Green tea'', price = Some 5\<rparr>"
  have a: "fst (is_valid (new_serializer (ProductCreateSerializer example_model) (Some ?obj)
        (data example_request) False) example_db)"
    by (simp add: is_valid_fst serializer_defs field_defs storage_defs example_defs Let_def)
  have b: "fst (is_valid (new_serializer (ProductDetailSerializer example_model) (Some ?obj)
        (data example_request) False) example_db)"
    by (simp add: is_valid_fst serializer_defs field_defs storage_defs example_defs Let_def)
  have c: "categories_of example_db 1 = [\<lparr>category_id = 1, category_columns = [(''name'', JStr ''drinks'')]\<rparr>]"
    by (simp add: categories_of_def example_db_def)
  have f: "data example_request ''slug'' = Some (JStr ''jam'')"
    "data example_request ''title'' = Some (JStr ''Jam'')"
    "data example_request ''description'' = Some (JStr ''Plum'')"
    "data example_request ''price'' = Some (JInt 3)"
    by (simp_all add: example_request_def)
  have m: "required (slug_column example_model)" "\<not> allow_blank (slug_column example_model)"
    "price_required example_model"
    "description_field example_model (JStr ''Plum'') = Inr ''Plum''"
    by (simp_all add: field_defs example_defs Let_def)
  show ?thesis
    using put_is_idempotent[where M=example_model and request=example_request and pk=1
        and d=example_db and obj="?obj" and q=example_request]
      a b m example_update_fields example_fields
    by (auto simp: f c CategorySerializer_data_def)
qed

section \<open>The two write schemas on the example\<close>

text \<open>
  Were \<^verbatim>\<open>categories\<close> not declared read-only, the same request would set the relation;
  and the same PUT replaces the description through the class-based handler while the
  function-based one keeps it.
\<close>

lemma categories_written_without_read_only:
  "product_categories (snd (write_flow
      \<lparr>meta_model = example_model,
       meta_fields = meta_fields (ProductDetailSerializer example_model), read_only_fields = []\<rparr>
      (Some \<lparr>product_id = 2, slug = ''mug'', title = ''Mug'', description = ''A mug'', price = Some 7\<rparr>)
      (data example_request) False (Some HTTP_200_OK) example_db))
   = [(1, 1), (2, 1)]"
  by (simp add: write_flow_def serializer_defs field_defs storage_defs response_defs example_defs
      Let_def)

lemma class_put_replaces_description:
  "map description (product_table (snd (ProductView_put example_model example_request 1 example_db)))
     = [''Plum'', ''A mug'']
   \<and> map description (product_table (snd (product_update example_model example_request 1 example_db)))
     = [''Green tea'', ''A mug'']"
  by (simp add: handler_defs serializer_defs field_defs storage_defs response_defs example_defs
      Let_def)

text \<open>
  The fields on the example: a number is taken as a title, a numeric string as a price, a
  price beyond the column's largest value is refused, and a slug is compared with the
  stored ones once its surrounding whitespace is gone.
\<close>

lemma numeric_title_is_text:
  "product_partial_update example_model
     \<lparr>data = [''slug'' \<mapsto> JStr ''mug'', ''title'' \<mapsto> JInt 9]\<rparr> 2 example_db =
     (Inr \<lparr>status = 200,
           body = Some (JObj [(''id'', JInt 2), (''slug'', JStr ''mug''), (''title'', JStr ''9''),
                              (''price'', JInt 7)])\<rparr>,
      example_db\<lparr>product_table :=
        [\<lparr>product_id = 1, slug = ''tea'', title = ''Tea'', description = ''Green tea'', price = Some 5\<rparr>,
         \<lparr>product_id = 2, slug = ''mug'', title = ''9'', description = ''A mug'', price = Some 7\<rparr>]\<rparr>)"
  by (simp add: handler_defs serializer_defs field_defs storage_defs response_defs example_defs
      Let_def int_str_def nat_str.simps)

lemma price_from_text: "price_field example_model (JStr ''12'') = Inr 12"
  by (simp add: field_defs example_defs Let_def python_int_def re_decimal_sub_def digits_ok_def
      is_digit_def digits_value_def)

lemma price_out_of_range:
  "price_field example_model (JInt 9223372036854775808) =
     Inl [''Ensure this value is less than or equal to 9223372036854775807.'']"
  by (simp add: field_defs example_defs Let_def int_str_def nat_str.simps)

lemma padded_slug_is_duplicate:
  "slug_field example_model example_db None (JStr ''tea '') =
     Inl [''product with this slug already exists.'']"
  by (simp add: field_defs storage_defs example_defs Let_def)

end
